theory Spec2Isabelle
  imports Main "HOL-Library.FSet"
begin

section \<open>Python values used by the importer\<close>

text \<open>
  A Python \<open>str\<close> is a sequence of Unicode code points; it is modelled as the list of
  its code points. \<open>lit\<close> turns a literal of the theory into such a list.
\<close>

type_synonym pystr = "nat list"

definition lit :: "string \<Rightarrow> pystr" where
  "lit s = map of_char s"

text \<open>
  \<open>str.isspace\<close> for one code point: the code points whose bidirectional class is
  WS, B or S, or whose category is Zs. \<open>str.strip()\<close> removes them on both sides.
\<close>

definition isspace :: "nat \<Rightarrow> bool" where
  "isspace c \<longleftrightarrow>
     (9 \<le> c \<and> c \<le> 13) \<or> (28 \<le> c \<and> c \<le> 32) \<or> c = 133 \<or> c = 160 \<or> c = 5760 \<or>
     (8192 \<le> c \<and> c \<le> 8202) \<or> c = 8232 \<or> c = 8233 \<or> c = 8239 \<or> c = 8287 \<or> c = 12288"

definition strip :: "pystr \<Rightarrow> pystr" where
  "strip s = rev (dropWhile isspace (rev (dropWhile isspace s)))"

text \<open>An exception: its class and its message.\<close>

datatype excecao =
    ValueError pystr
  | OperationalError pystr
  | ProgrammingError pystr
  | OutraExcecao pystr

text \<open>Decimal rendering of a non-negative integer, as \<open>str\<close> and f-strings produce it.\<close>

fun str_nat :: "nat \<Rightarrow> pystr" where
  "str_nat n = (if n < 10 then [48 + n] else str_nat (n div 10) @ [48 + n mod 10])"

declare str_nat.simps [simp del]

text \<open>
  \<open>str()\<close> of an \<open>int\<close>. CPython refuses to render an integer of more digits than
  \<open>sys.get_int_max_str_digits()\<close>, 4300 unless the program or its environment changes
  it (the importer does not), and raises ValueError instead.
\<close>

definition int_max_str_digits :: nat where
  "int_max_str_digits = 4300"

definition msg_int_max_str_digits :: pystr where
  "msg_int_max_str_digits =
     lit ''Exceeds the limit (4300 digits) for integer string conversion; '' @
     lit ''use sys.set_int_max_str_digits() to increase the limit''"

definition str_int :: "int \<Rightarrow> excecao + pystr" where
  "str_int i =
     (if 10 ^ int_max_str_digits \<le> \<bar>i\<bar> then Inl (ValueError msg_int_max_str_digits)
      else Inr (if i < 0 then 45 # str_nat (nat (- i)) else str_nat (nat i)))"

text \<open>
  The values a column label or a cell can be. \<open>PNaN\<close> is the float NaN, \<open>PNaT\<close> and
  \<open>PNA\<close> are pandas' missing markers for dates and for nullable types. \<open>POther r\<close>
  stands for any other object (a finite float, a timestamp, an instance of some class),
  represented by what \<open>str()\<close> does with it: \<open>r\<close> is \<open>Inr s\<close> when \<open>str()\<close> returns the
  text \<open>s\<close>, and \<open>Inl e\<close> when it raises \<open>e\<close> (its \<open>__str__\<close> raises, or returns
  something that is not a string).
\<close>

datatype pyval =
    PNone
  | PBool bool
  | PInt int
  | PStr pystr
  | PNaN
  | PNaT
  | PNA
  | POther "excecao + pystr"

text \<open>\<open>str(valor)\<close>: the text, or the exception raised.\<close>

fun py_str :: "pyval \<Rightarrow> excecao + pystr" where
  "py_str PNone = Inr (lit ''None'')"
| "py_str (PBool b) = Inr (if b then lit ''True'' else lit ''False'')"
| "py_str (PInt i) = str_int i"
| "py_str (PStr s) = Inr s"
| "py_str PNaN = Inr (lit ''nan'')"
| "py_str PNaT = Inr (lit ''NaT'')"
| "py_str PNA = Inr (lit ''<NA>'')"
| "py_str (POther r) = r"

section \<open>preparar_nomes_colunas\<close>

text \<open>The f-string \<open>f"{nome_original}_{contador}"\<close>.\<close>

definition sufixado :: "pystr \<Rightarrow> nat \<Rightarrow> pystr" where
  "sufixado nome_original contador = nome_original @ lit ''_'' @ str_nat contador"

text \<open>
  A left inverse of \<open>str_nat\<close>, used only to show that different counters give
  different suffixes.
\<close>

definition valor_decimal :: "pystr \<Rightarrow> nat" where
  "valor_decimal ds = foldl (\<lambda>a d. 10 * a + (d - 48)) 0 ds"

lemma valor_decimal_str_nat [simp]: "valor_decimal (str_nat n) = n"
proof (induction n rule: str_nat.induct)
  case (1 n)
  show ?case
  proof (cases "n < 10")
    case True
    then show ?thesis by (simp add: str_nat.simps [of n] valor_decimal_def)
  next
    case False
    with 1 have "valor_decimal (str_nat (n div 10)) = n div 10" by simp
    with False show ?thesis
      by (simp add: str_nat.simps [of n] valor_decimal_def)
  qed
qed

lemma str_nat_inj: "str_nat m = str_nat n \<Longrightarrow> m = n"
  by (metis valor_decimal_str_nat)

lemma sufixado_inj: "sufixado b j = sufixado b k \<Longrightarrow> j = k"
  by (simp add: sufixado_def str_nat_inj)

lemma inj_sufixado: "inj (sufixado b)"
  by (rule injI) (rule sufixado_inj)

lemma sufixado_neq_base [simp]: "sufixado b k \<noteq> b"
  by (simp add: sufixado_def lit_def)

lemma sufixado_not_Nil [simp]: "sufixado b k \<noteq> []"
  by (simp add: sufixado_def lit_def)

text \<open>
  How many counters above \<open>contador\<close> still name an existing column: the quantity
  that shrinks while the \<open>while\<close> loop runs.
\<close>

definition pendentes :: "pystr \<Rightarrow> pystr fset \<Rightarrow> nat \<Rightarrow> nat set" where
  "pendentes nome_original existentes contador =
     {k. contador < k \<and> sufixado nome_original k |\<in>| existentes}"

lemma finite_pendentes [simp]: "finite (pendentes b E c)"
proof -
  have "finite (sufixado b -` fset E)"
    by (rule finite_vimageI) (simp_all add: inj_sufixado)
  moreover have "pendentes b E c \<subseteq> sufixado b -` fset E"
    by (auto simp: pendentes_def)
  ultimately show ?thesis by (rule rev_finite_subset)
qed

lemma pendentes_Suc_in:
  "sufixado b (Suc c) |\<in>| E \<Longrightarrow> pendentes b E c = insert (Suc c) (pendentes b E (Suc c))"
  by (auto simp: pendentes_def less_Suc_eq_le Suc_le_eq order_le_less)

lemma pendentes_Suc_notin:
  "sufixado b (Suc c) |\<notin>| E \<Longrightarrow> pendentes b E (Suc c) = pendentes b E c"
  by (auto simp: pendentes_def) (metis Suc_lessI)

lemma Suc_notin_pendentes [simp]: "Suc c \<notin> pendentes b E (Suc c)"
  by (simp add: pendentes_def)

text \<open>
  The \<open>while nome in colunas_existentes\<close> loop of lines 55-58, entered with
  \<open>contador = 1\<close> and \<open>nome = nome_original\<close>.
\<close>

function desambiguar :: "pystr \<Rightarrow> pystr fset \<Rightarrow> nat \<Rightarrow> pystr \<Rightarrow> pystr" where
  "desambiguar nome_original colunas_existentes contador nome =
     (if nome |\<in>| colunas_existentes
      then desambiguar nome_original colunas_existentes (contador + 1)
             (sufixado nome_original (contador + 1))
      else nome)"
  by pat_completeness auto
termination
proof (relation "measure (\<lambda>(b, E, c, n). 2 * card (pendentes b E c) + (if n |\<in>| E then 1 else 0))",
    goal_cases)
  case 1
  show ?case by simp
next
  case (2 b E c nome)
  show ?case
  proof (cases "sufixado b (Suc c) |\<in>| E")
    case True
    then have "card (pendentes b E c) = Suc (card (pendentes b E (Suc c)))"
      by (simp add: pendentes_Suc_in)
    with 2 True show ?thesis by simp
  next
    case False
    with 2 show ?thesis by (simp add: pendentes_Suc_notin)
  qed
qed

declare desambiguar.simps [simp del]

text \<open>
  Lines 49-52, once \<open>str(coluna)\<close> has returned \<open>texto\<close>: the trimmed text, or the
  placeholder built from the 1-based position when the trimmed text is empty.
\<close>

definition nome_base :: "nat \<Rightarrow> pystr \<Rightarrow> pystr" where
  "nome_base indice texto =
     (let nome = strip texto
      in if nome = [] then lit ''coluna_'' @ str_nat indice else nome)"

text \<open>
  The \<open>for indice, coluna in enumerate(colunas, start=1)\<close> loop, with the two
  accumulators \<open>nomes_ajustados\<close> and \<open>colunas_existentes\<close> as its state. An exception
  raised by \<open>str(coluna)\<close> leaves the loop and the function.
\<close>

fun laco ::
  "nat \<Rightarrow> pyval list \<Rightarrow> pystr list \<times> pystr fset \<Rightarrow> excecao + pystr list \<times> pystr fset" where
  "laco indice [] estado = Inr estado"
| "laco indice (coluna # resto) (nomes_ajustados, colunas_existentes) =
     (case py_str coluna of
        Inl e \<Rightarrow> Inl e
      | Inr texto \<Rightarrow>
          (let nome_original = nome_base indice texto;
               nome = desambiguar nome_original colunas_existentes 1 nome_original
           in laco (indice + 1) resto (nomes_ajustados @ [nome], finsert nome colunas_existentes)))"

definition preparar_nomes_colunas :: "pyval list \<Rightarrow> excecao + pystr list" where
  "preparar_nomes_colunas colunas =
     (case laco 1 colunas ([], {||}) of
        Inl e \<Rightarrow> Inl e
      | Inr (nomes_ajustados, colunas_existentes) \<Rightarrow> Inr nomes_ajustados)"

text \<open>
  The names already assigned when the loop reaches position \<open>i\<close> (from 0), in a
  result \<open>nomes\<close>.
\<close>

definition anteriores :: "pystr list \<Rightarrow> nat \<Rightarrow> pystr set" where
  "anteriores nomes i = set (take i nomes)"

text \<open>
  The loop on the texts that \<open>str()\<close> returned, for the labels on which it returns:
  the same steps without the exception. It serves the proofs only; \<open>laco_dos_textos\<close>
  below shows that \<open>laco\<close> computes it.
\<close>

fun laco_textos :: "nat \<Rightarrow> pystr list \<Rightarrow> pystr list \<times> pystr fset \<Rightarrow> pystr list \<times> pystr fset" where
  "laco_textos indice [] estado = estado"
| "laco_textos indice (texto # resto) (nomes_ajustados, colunas_existentes) =
     (let nome_original = nome_base indice texto;
          nome = desambiguar nome_original colunas_existentes 1 nome_original
      in laco_textos (indice + 1) resto (nomes_ajustados @ [nome], finsert nome colunas_existentes))"

definition nomes_dos_textos :: "pystr list \<Rightarrow> pystr list" where
  "nomes_dos_textos textos = fst (laco_textos 1 textos ([], {||}))"

section \<open>The SQL statements\<close>

definition escapar_identificador :: "pystr \<Rightarrow> pystr" where
  "escapar_identificador identificador =
     concat (map (\<lambda>c. if c = 34 then [34, 34] else [c]) identificador)"

fun join :: "pystr \<Rightarrow> pystr list \<Rightarrow> pystr" where
  "join sep [] = []"
| "join sep [x] = x"
| "join sep (x # y # ys) = x @ sep @ join sep (y # ys)"

text \<open>
  The three statements the importer sends, and \<open>sql\<close>, the text of each as the
  f-strings of lines 77-91 build it. The model of SQLite below works on the statement
  that the text denotes.
\<close>

datatype instrucao =
    DropTableIfExists
  | CreateTable "pystr list"
  | InsertInto "pystr list"

fun sql :: "instrucao \<Rightarrow> pystr" where
  "sql DropTableIfExists = lit ''DROP TABLE IF EXISTS produtos_bling''"
| "sql (CreateTable colunas) =
     lit ''CREATE TABLE produtos_bling ('' @
     join (lit '', '') (map (\<lambda>nome. [34] @ escapar_identificador nome @ [34] @ lit '' TEXT'') colunas) @
     lit '')''"
| "sql (InsertInto colunas) =
     lit ''INSERT INTO produtos_bling ('' @
     join (lit '', '') (map (\<lambda>nome. [34] @ escapar_identificador nome @ [34]) colunas) @
     lit '') VALUES ('' @
     join (lit '', '') (replicate (length colunas) (lit ''?'')) @
     lit '')''"

section \<open>read_planilha\<close>

text \<open>
  \<open>str.lower()\<close> on the code points below 128; other code points are left as they
  are. Python lowers some of them too, but none to a character of \<open>.csv\<close>,
  \<open>.xls\<close> or \<open>.xlsx\<close>, so the comparisons of \<open>read_planilha\<close> are unaffected.
  SQLite folds the case of identifiers in exactly this way.
\<close>

definition lower :: "pystr \<Rightarrow> pystr" where
  "lower s = map (\<lambda>c. if 65 \<le> c \<and> c \<le> 90 then c + 32 else c) s"

text \<open>
  A \<open>pathlib.Path\<close>: the text of the path, which names the file for the parsers, and
  its attribute \<open>suffix\<close>, the only part the reader looks at.
\<close>

record path =
  como_texto :: pystr
  suffix :: pystr

text \<open>
  A \<open>pandas.DataFrame\<close>: the column labels and the rows that \<open>to_numpy()\<close> yields.
  \<open>DataFrame.empty\<close> is true when either axis has length 0.
\<close>

record dataframe =
  columns :: "pyval list"
  linhas :: "pyval list list"

definition df_empty :: "dataframe \<Rightarrow> bool" where
  "df_empty df \<longleftrightarrow> columns df = [] \<or> linhas df = []"

text \<open>
  What the run depends on outside the repository:
  \<^item> the two pandas parsers applied to the files of the machine
    (\<open>pd.read_csv(caminho, sep=None, engine="python")\<close> and \<open>pd.read_excel(caminho)\<close>,
    each returning a frame or raising);
  \<^item> which Python values the sqlite3 module can bind as a statement parameter;
  \<^item> \<open>sqlite_recusa\<close>: the exception, if any, with which a DROP TABLE or CREATE TABLE
    statement is refused for a reason that the model of SQLite below does not work out
    (the database is read-only or locked, the disk fails, the text holds a NUL
    character, the table would have more columns than SQLite allows, ...);
  \<^item> \<open>commit_recusado\<close>: the exception, if any, with which committing a transaction
    fails (the database is locked, the disk is full, ...).
  The theorems hold for every such environment.
\<close>

record ambiente =
  read_csv :: "path \<Rightarrow> excecao + dataframe"
  read_excel :: "path \<Rightarrow> excecao + dataframe"
  sqlite_aceita :: "pyval \<Rightarrow> bool"
  sqlite_recusa :: "instrucao \<Rightarrow> excecao option"
  commit_recusado :: "excecao option"

definition msg_formato :: pystr where
  "msg_formato =
     lit ''Formato de arquivo n'' @ [227] @
     lit ''o suportado. Utilize arquivos .csv, .xls ou .xlsx.''"

definition msg_vazia :: pystr where
  "msg_vazia =
     lit ''A planilha est'' @ [225] @ lit '' vazia e n'' @ [227] @
     lit ''o possui dados para importar.''"

definition read_planilha :: "ambiente \<Rightarrow> path \<Rightarrow> excecao + dataframe" where
  "read_planilha amb caminho =
     (let sufixo = lower (suffix caminho);
          lido = (if sufixo = lit ''.csv'' then read_csv amb caminho
                  else if sufixo \<in> {lit ''.xls'', lit ''.xlsx''} then read_excel amb caminho
                  else Inl (ValueError msg_formato))
      in case lido of
           Inl e \<Rightarrow> Inl e
         | Inr dataframe \<Rightarrow>
             if df_empty dataframe then Inl (ValueError msg_vazia) else Inr dataframe)"

section \<open>The sqlite3 connection\<close>

text \<open>
  A table: its column names and its rows, each row holding the values bound to the
  statement that inserted it.
\<close>

type_synonym tabela = "pystr list \<times> pyval list list"

text \<open>
  A connection of Python's sqlite3 module in its default transaction mode, reduced to
  the one table the importer names. \<open>gravado\<close> is the committed content of
  \<open>produtos_bling\<close> in the database file, \<open>atual\<close> the content the connection sees
  (with its uncommitted changes). As the module documents:
  \<^item> a transaction is opened implicitly before an INSERT, UPDATE, DELETE or REPLACE
    and before no other statement, so that a DROP TABLE or CREATE TABLE executed
    outside a transaction is committed at once;
  \<^item> \<open>commit\<close> and \<open>rollback\<close> end the open transaction, and \<open>commit\<close> does nothing
    when no transaction is open;
  \<^item> leaving the \<open>with\<close> block of a connection commits when the body finished and
    rolls back when it raised or when that commit fails; it does not close the
    connection;
  \<^item> only \<open>close\<close> closes a connection.
  A statement that fails changes nothing. \<open>sqlite3.connect\<close> is taken to succeed:
  when it raises instead, no connection exists and nothing has been changed.
\<close>

record conexao =
  gravado :: "tabela option"
  atual :: "tabela option"
  em_transacao :: bool
  aberta :: bool

definition connect :: "tabela option \<Rightarrow> conexao" where
  "connect banco = \<lparr>gravado = banco, atual = banco, em_transacao = False, aberta = True\<rparr>"

definition commit :: "ambiente \<Rightarrow> conexao \<Rightarrow> excecao option \<times> conexao" where
  "commit amb c =
     (if \<not> em_transacao c then (None, c)
      else case commit_recusado amb of
             Some e \<Rightarrow> (Some e, c)
           | None \<Rightarrow> (None, c\<lparr>gravado := atual c, em_transacao := False\<rparr>))"

definition rollback :: "conexao \<Rightarrow> conexao" where
  "rollback c = c\<lparr>atual := gravado c, em_transacao := False\<rparr>"

definition close :: "conexao \<Rightarrow> conexao" where
  "close c = (rollback c)\<lparr>aberta := False\<rparr>"

text \<open>A change made outside a transaction is committed with the statement.\<close>

definition alterar :: "tabela option \<Rightarrow> conexao \<Rightarrow> conexao" where
  "alterar t c = (if em_transacao c then c\<lparr>atual := t\<rparr> else c\<lparr>gravado := t, atual := t\<rparr>)"

text \<open>
  \<open>cursor.execute\<close>. DROP TABLE IF EXISTS fails only when the environment refuses it.
  CREATE TABLE fails when the table exists, when it has no column, when two column
  names are equal up to the case of their ASCII letters, and when the environment
  refuses it. An INSERT with placeholders and no parameters fails.
\<close>

fun execute :: "ambiente \<Rightarrow> instrucao \<Rightarrow> conexao \<Rightarrow> excecao option \<times> conexao" where
  "execute amb DropTableIfExists c =
     (case sqlite_recusa amb DropTableIfExists of
        Some e \<Rightarrow> (Some e, c)
      | None \<Rightarrow> (None, alterar None c))"
| "execute amb (CreateTable colunas) c =
     (if atual c \<noteq> None
        then (Some (OperationalError (lit ''table produtos_bling already exists'')), c)
      else if colunas = []
        then (Some (OperationalError (lit ''near '' @ [34, 41, 34] @ lit '': syntax error'')), c)
      else if \<not> distinct (map lower colunas)
        then (Some (OperationalError (lit ''duplicate column name'')), c)
      else case sqlite_recusa amb (CreateTable colunas) of
             Some e \<Rightarrow> (Some e, c)
           | None \<Rightarrow> (None, alterar (Some (colunas, [])) c))"
| "execute amb (InsertInto colunas) c =
     (Some (ProgrammingError (lit ''Incorrect number of bindings supplied'')), c)"

text \<open>
  The rows of \<open>cursor.executemany\<close>, one after the other: a row fails when it has
  not one value per placeholder or holds a value the module cannot bind; the rows
  before it stay in the open transaction.
\<close>

fun inserir_linhas :: "ambiente \<Rightarrow> nat \<Rightarrow> pyval list list \<Rightarrow> conexao \<Rightarrow> excecao option \<times> conexao" where
  "inserir_linhas amb n [] c = (None, c)"
| "inserir_linhas amb n (linha # resto) c =
     (if length linha \<noteq> n
        then (Some (ProgrammingError (lit ''Incorrect number of bindings supplied'')), c)
      else if \<not> list_all (sqlite_aceita amb) linha
        then (Some (ProgrammingError (lit ''Error binding parameter'')), c)
      else inserir_linhas amb n resto
             (c\<lparr>atual := map_option (\<lambda>(colunas, registros). (colunas, registros @ [linha])) (atual c)\<rparr>))"

text \<open>The rows that \<open>inserir_linhas\<close> accepts, all of them.\<close>

definition linhas_aceitas :: "ambiente \<Rightarrow> nat \<Rightarrow> pyval list list \<Rightarrow> bool" where
  "linhas_aceitas amb n parametros =
     list_all (\<lambda>linha. length linha = n \<and> list_all (sqlite_aceita amb) linha) parametros"

text \<open>
  \<open>cursor.executemany\<close>. Only a data-modifying statement is accepted. The model covers
  an INSERT that lists the columns of the table in the table's order, which is what the
  importer sends; the transaction is opened before the first row. A failure of the
  environment while the rows are inserted has the effect of a row that is not
  accepted: it happens inside the transaction.
\<close>

fun executemany :: "ambiente \<Rightarrow> instrucao \<Rightarrow> pyval list list \<Rightarrow> conexao \<Rightarrow> excecao option \<times> conexao" where
  "executemany amb (InsertInto colunas) parametros c =
     (case atual c of
        None \<Rightarrow> (Some (OperationalError (lit ''no such table: produtos_bling'')), c)
      | Some (colunas_tabela, registros) \<Rightarrow>
          if colunas \<noteq> colunas_tabela
            then (Some (OperationalError (lit ''table produtos_bling has no such column'')), c)
          else inserir_linhas amb (length colunas) parametros (c\<lparr>em_transacao := True\<rparr>))"
| "executemany amb DropTableIfExists parametros c =
     (Some (ProgrammingError (lit ''executemany() can only execute DML statements.'')), c)"
| "executemany amb (CreateTable colunas) parametros c =
     (Some (ProgrammingError (lit ''executemany() can only execute DML statements.'')), c)"

text \<open>
  Leaving the \<open>with\<close> block: \<open>e\<close> is the exception its body raised, if any. The
  exception of the body, or of the commit, goes on to the caller.
\<close>

definition sair :: "ambiente \<Rightarrow> excecao option \<Rightarrow> conexao \<Rightarrow> excecao option \<times> conexao" where
  "sair amb e c =
     (case e of
        Some x \<Rightarrow> (Some x, rollback c)
      | None \<Rightarrow>
          (case commit amb c of
             (None, c') \<Rightarrow> (None, c')
           | (Some x, c') \<Rightarrow> (Some x, rollback c')))"

text \<open>Sequencing: an exception skips the rest.\<close>

definition entao ::
  "excecao option \<times> conexao \<Rightarrow> (conexao \<Rightarrow> excecao option \<times> conexao) \<Rightarrow> excecao option \<times> conexao" where
  "entao r f = (case r of (None, c) \<Rightarrow> f c | (Some e, c) \<Rightarrow> (Some e, c))"

section \<open>criar_tabela_produtos, inserir_registros, importar_planilha\<close>

text \<open>The cursor of lines 106-108 belongs to the connection and is modelled by it.\<close>

definition criar_tabela_produtos ::
  "ambiente \<Rightarrow> pystr list \<Rightarrow> conexao \<Rightarrow> excecao option \<times> conexao" where
  "criar_tabela_produtos amb colunas cursor =
     entao (execute amb DropTableIfExists cursor) (execute amb (CreateTable colunas))"

text \<open>\<open>pd.isna\<close> on one cell.\<close>

fun isna :: "pyval \<Rightarrow> bool" where
  "isna PNone = True"
| "isna PNaN = True"
| "isna PNaT = True"
| "isna PNA = True"
| "isna _ = False"

text \<open>Lines 93-96: the list \<open>valores\<close>.\<close>

definition valores :: "dataframe \<Rightarrow> pyval list list" where
  "valores dados = map (\<lambda>linha. map (\<lambda>valor. if isna valor then PNone else valor) linha) (linhas dados)"

definition inserir_registros ::
  "ambiente \<Rightarrow> pystr list \<Rightarrow> dataframe \<Rightarrow> conexao \<Rightarrow> excecao option \<times> conexao" where
  "inserir_registros amb colunas dados cursor =
     executemany amb (InsertInto colunas) (valores dados) cursor"

text \<open>
  What a call of \<open>importar_planilha\<close> leaves: the exception that leaves it (if any),
  the committed content of \<open>produtos_bling\<close> in the database file, and the connection
  it opened (if it opened one) as it is when the function returns.
\<close>

record execucao =
  erro :: "excecao option"
  banco_final :: "tabela option"
  conexao_final :: "conexao option"

text \<open>
  \<open>banco\<close> is the committed content of \<open>produtos_bling\<close> in the file \<open>banco_dados\<close>
  before the call. An exception of \<open>read_planilha\<close> or of \<open>preparar_nomes_colunas\<close>
  leaves the function before \<open>sqlite3.connect\<close>. The assignment
  \<open>dataframe.columns = colunas\<close> is accepted by pandas because \<open>colunas\<close> has as many
  names as the frame has columns.
\<close>

definition importar_planilha :: "ambiente \<Rightarrow> path \<Rightarrow> tabela option \<Rightarrow> execucao" where
  "importar_planilha amb caminho_planilha banco =
     (case read_planilha amb caminho_planilha of
        Inl e \<Rightarrow> \<lparr>erro = Some e, banco_final = banco, conexao_final = None\<rparr>
      | Inr lido \<Rightarrow>
          (case preparar_nomes_colunas (columns lido) of
             Inl e \<Rightarrow> \<lparr>erro = Some e, banco_final = banco, conexao_final = None\<rparr>
           | Inr colunas \<Rightarrow>
               (let dataframe = lido\<lparr>columns := map PStr colunas\<rparr>;
                    conexao = connect banco;
                    (e, conexao) =
                      entao (entao (criar_tabela_produtos amb colunas conexao)
                               (inserir_registros amb colunas dataframe))
                        (commit amb);
                    (e, conexao) = sair amb e conexao
                in \<lparr>erro = e, banco_final = gravado conexao, conexao_final = Some conexao\<rparr>)))"

section \<open>Example inputs\<close>

text \<open>
  A path to a CSV file; an environment whose CSV parser yields a given frame, whose
  sqlite3 binds every value but an integer outside 64 bits and in which no statement
  and no commit is refused; the same environment with a database that refuses
  DROP TABLE (a read-only file); a table left by an earlier import; a sheet with two
  columns and two rows, one cell of it missing.
\<close>

definition caminho_csv :: path where
  "caminho_csv = \<lparr>como_texto = lit ''produtos.csv'', suffix = lit ''.csv''\<rparr>"

definition ambiente_csv :: "dataframe \<Rightarrow> ambiente" where
  "ambiente_csv df =
     \<lparr>read_csv = (\<lambda>p. Inr df),
      read_excel = (\<lambda>p. Inl (OutraExcecao (lit ''not a workbook''))),
      sqlite_aceita = (\<lambda>v. case v of PInt i \<Rightarrow> - (2 ^ 63) \<le> i \<and> i < 2 ^ 63 | _ \<Rightarrow> True),
      sqlite_recusa = (\<lambda>i. None),
      commit_recusado = None\<rparr>"


definition tabela_antiga :: tabela where
  "tabela_antiga = ([lit ''Nome''], [[PStr (lit ''caneta'')]])"

definition planilha_exemplo :: dataframe where
  "planilha_exemplo =
     \<lparr>columns = [PStr (lit ''Nome''), PStr (lit ''Preco'')],
      linhas = [[PStr (lit ''lapis''), PInt 3], [PNaN, PInt 4]]\<rparr>"

text \<open>
  A sheet whose two headers differ only in case, and a sheet with an integer that does
  not fit in 64 bits.
\<close>

definition planilha_Aa :: dataframe where
  "planilha_Aa = \<lparr>columns = [PStr (lit ''A''), PStr (lit ''a'')], linhas = [[PInt 1, PInt 2]]\<rparr>"


text \<open>An integer of 4301 digits, the shortest that \<open>str()\<close> refuses.\<close>

definition inteiro_de_4301_digitos :: int where
  "inteiro_de_4301_digitos = 10 ^ 4300"

section \<open>Facts about the loops of the normalizer\<close>

lemma desambiguar_notin: "desambiguar b E c n |\<notin>| E"
proof (induction b E c n rule: desambiguar.induct)
  case (1 b E c n)
  then show ?case
    by (cases "n |\<in>| E") (simp_all add: desambiguar.simps [of b E c n])
qed

lemma desambiguar_livre: "n |\<notin>| E \<Longrightarrow> desambiguar b E c n = n"
  by (simp add: desambiguar.simps [of b E c n])

lemma desambiguar_colide:
  "n |\<in>| E \<Longrightarrow>
   \<exists>k>c. desambiguar b E c n = sufixado b k \<and> sufixado b k |\<notin>| E \<and>
          (\<forall>j. c < j \<and> j < k \<longrightarrow> sufixado b j |\<in>| E)"
proof (induction b E c n rule: desambiguar.induct)
  case (1 b E c n)
  from "1.prems" have passo: "desambiguar b E c n = desambiguar b E (Suc c) (sufixado b (Suc c))"
    by (simp add: desambiguar.simps [of b E c n])
  show ?case
  proof (cases "sufixado b (Suc c) |\<in>| E")
    case True
    with 1 obtain k where k: "Suc c < k"
      "desambiguar b E (Suc c) (sufixado b (Suc c)) = sufixado b k"
      "sufixado b k |\<notin>| E" "\<forall>j. Suc c < j \<and> j < k \<longrightarrow> sufixado b j |\<in>| E"
      by auto
    have "\<forall>j. c < j \<and> j < k \<longrightarrow> sufixado b j |\<in>| E"
    proof (intro allI impI)
      fix j assume "c < j \<and> j < k"
      then have "j = Suc c \<or> (Suc c < j \<and> j < k)" by arith
      with True k(4) show "sufixado b j |\<in>| E" by auto
    qed
    with k passo show ?thesis by (intro exI [of _ k]) simp
  next
    case False
    then have "desambiguar b E (Suc c) (sufixado b (Suc c)) = sufixado b (Suc c)"
      by (rule desambiguar_livre)
    with passo False show ?thesis by (intro exI [of _ "Suc c"]) auto
  qed
qed

lemma nome_base_not_Nil [simp]: "nome_base i x \<noteq> []"
  by (simp add: nome_base_def Let_def lit_def)

lemma desambiguar_not_Nil: "n \<noteq> [] \<Longrightarrow> desambiguar b E c n \<noteq> []"
  by (cases "n |\<in>| E") (auto simp: desambiguar_livre dest: desambiguar_colide [of n E c b])

lemma laco_textos_append: "laco_textos i (xs @ ys) st = laco_textos (i + length xs) ys (laco_textos i xs st)"
  by (induction xs arbitrary: i st) (auto simp: Let_def)

lemma laco_textos_inv:
  "snd (laco_textos i xs (acc, fset_of_list acc)) = fset_of_list (fst (laco_textos i xs (acc, fset_of_list acc)))"
proof (induction xs arbitrary: i acc)
  case Nil
  show ?case by simp
next
  case (Cons x xs)
  define n where "n = desambiguar (nome_base i x) (fset_of_list acc) 1 (nome_base i x)"
  have "finsert n (fset_of_list acc) = fset_of_list (acc @ [n])" by auto
  with Cons [of "i + 1" "acc @ [n]"] show ?case by (simp add: Let_def n_def)
qed

lemma nomes_Nil [simp]: "nomes_dos_textos [] = []"
  by (simp add: nomes_dos_textos_def)

lemma nomes_snoc:
  "nomes_dos_textos (xs @ [x]) =
     nomes_dos_textos xs @
       [desambiguar (nome_base (Suc (length xs)) x) (fset_of_list (nomes_dos_textos xs)) 1
          (nome_base (Suc (length xs)) x)]"
proof -
  have "laco_textos 1 xs ([], {||}) = (nomes_dos_textos xs, fset_of_list (nomes_dos_textos xs))"
    using laco_textos_inv [of 1 xs "[]"]
    by (simp add: nomes_dos_textos_def prod_eq_iff)
  moreover have "nomes_dos_textos (xs @ [x]) = fst (laco_textos (Suc (length xs)) [x] (laco_textos 1 xs ([], {||})))"
    by (simp add: nomes_dos_textos_def laco_textos_append)
  ultimately show ?thesis
    by (simp only: laco_textos.simps Let_def fst_conv One_nat_def)
qed

lemma length_nomes [simp]: "length (nomes_dos_textos xs) = length xs"
  by (induction xs rule: rev_induct) (simp_all add: nomes_snoc)

lemma distinct_nomes: "distinct (nomes_dos_textos xs)"
proof (induction xs rule: rev_induct)
  case Nil
  show ?case by simp
next
  case (snoc x xs)
  have "desambiguar (nome_base (Suc (length xs)) x) (fset_of_list (nomes_dos_textos xs)) 1
          (nome_base (Suc (length xs)) x) \<notin> set (nomes_dos_textos xs)"
    using desambiguar_notin [of "nome_base (Suc (length xs)) x" "fset_of_list (nomes_dos_textos xs)" 1
        "nome_base (Suc (length xs)) x"]
    by (simp add: fset_of_list.rep_eq)
  with snoc show ?case by (simp add: nomes_snoc)
qed

lemma nomes_not_Nil: "[] \<notin> set (nomes_dos_textos xs)"
proof (induction xs rule: rev_induct)
  case Nil
  show ?case by simp
next
  case (snoc x xs)
  have "desambiguar (nome_base (Suc (length xs)) x) (fset_of_list (nomes_dos_textos xs)) 1
          (nome_base (Suc (length xs)) x) \<noteq> []"
    by (rule desambiguar_not_Nil) simp
  with snoc show ?case by (simp add: nomes_snoc)
qed

lemma nomes_append_take:
  "take (length xs) (nomes_dos_textos (xs @ ys)) = nomes_dos_textos xs"
proof (induction ys rule: rev_induct)
  case Nil
  show ?case by simp
next
  case (snoc y ys)
  have "nomes_dos_textos (xs @ ys @ [y]) = nomes_dos_textos ((xs @ ys) @ [y])" by simp
  also have "take (length xs) \<dots> = take (length xs) (nomes_dos_textos (xs @ ys))"
    by (simp add: nomes_snoc del: append_assoc)
  finally show ?case using snoc by simp
qed

lemma nomes_take: "take i (nomes_dos_textos xs) = nomes_dos_textos (take i xs)"
proof (cases "i \<le> length xs")
  case True
  then show ?thesis
    using nomes_append_take [of "take i xs" "drop i xs"] by simp
next
  case False
  then show ?thesis by simp
qed

lemma nomes_nth:
  assumes "i < length xs"
  shows "nomes_dos_textos xs ! i =
         desambiguar (nome_base (Suc i) (xs ! i)) (fset_of_list (take i (nomes_dos_textos xs))) 1
           (nome_base (Suc i) (xs ! i))"
proof -
  from assms have "take (Suc i) xs = take i xs @ [xs ! i]"
    by (simp add: take_Suc_conv_app_nth)
  then have "nomes_dos_textos (take (Suc i) xs) =
      nomes_dos_textos (take i xs) @
        [desambiguar (nome_base (Suc i) (xs ! i)) (fset_of_list (nomes_dos_textos (take i xs))) 1
          (nome_base (Suc i) (xs ! i))]"
    using assms by (simp add: nomes_snoc)
  moreover have "nomes_dos_textos xs ! i = take (Suc i) (nomes_dos_textos xs) ! i"
    by simp
  ultimately show ?thesis
    using assms by (simp add: nomes_take nth_append del: nth_take)
qed

lemma dropWhile_nenhum: "\<forall>c\<in>set s. \<not> P c \<Longrightarrow> dropWhile P s = s"
  by (cases s) simp_all

lemma strip_sem_espacos: "\<forall>c\<in>set s. \<not> isspace c \<Longrightarrow> strip s = s"
proof -
  assume a: "\<forall>c\<in>set s. \<not> isspace c"
  then have "dropWhile isspace s = s" by (rule dropWhile_nenhum)
  moreover from a have "\<forall>c\<in>set (rev s). \<not> isspace c" by simp
  then have "dropWhile isspace (rev s) = rev s" by (rule dropWhile_nenhum)
  ultimately show ?thesis by (simp add: strip_def)
qed

lemma str_nat_digitos: "c \<in> set (str_nat n) \<Longrightarrow> 48 \<le> c \<and> c \<le> 57"
proof (induction n rule: str_nat.induct)
  case (1 n)
  show ?case
  proof (cases "n < 10")
    case True
    with "1.prems" show ?thesis by (simp add: str_nat.simps [of n])
  next
    case False
    have "n mod 10 < 10" by simp
    with False 1 show ?thesis
      by (auto simp: str_nat.simps [of n])
  qed
qed

lemma str_nat_not_Nil [simp]: "str_nat n \<noteq> []"
  by (simp add: str_nat.simps [of n])

lemma nomes_limpo:
  "[] \<notin> set (map strip textos) \<Longrightarrow> distinct (map strip textos) \<Longrightarrow>
   nomes_dos_textos textos = map strip textos"
proof (induction textos rule: rev_induct)
  case Nil
  show ?case by simp
next
  case (snoc x xs)
  then have ih: "nomes_dos_textos xs = map strip xs" by simp
  from snoc.prems have b: "nome_base (Suc (length xs)) x = strip x"
    by (auto simp: nome_base_def Let_def)
  from snoc.prems have "strip x |\<notin>| fset_of_list (map strip xs)"
    by (simp add: fset_of_list.rep_eq)
  then show ?case
    by (simp add: nomes_snoc ih b desambiguar_livre)
qed

lemma nomes_nth_casos:
  assumes "i < length textos"
  shows "nomes_dos_textos textos ! i = nome_base (Suc i) (textos ! i) \<or>
         (\<exists>k\<ge>2. nomes_dos_textos textos ! i = sufixado (nome_base (Suc i) (textos ! i)) k)"
proof (cases "nome_base (Suc i) (textos ! i) |\<in>| fset_of_list (take i (nomes_dos_textos textos))")
  case True
  from desambiguar_colide [OF True, of 1 "nome_base (Suc i) (textos ! i)"]
  obtain k where "1 < k" and
    "desambiguar (nome_base (Suc i) (textos ! i))
       (fset_of_list (take i (nomes_dos_textos textos))) 1 (nome_base (Suc i) (textos ! i)) =
     sufixado (nome_base (Suc i) (textos ! i)) k"
    by auto
  with assms have "2 \<le> k \<and>
      nomes_dos_textos textos ! i = sufixado (nome_base (Suc i) (textos ! i)) k"
    by (simp add: nomes_nth)
  then show ?thesis by blast
next
  case False
  with assms show ?thesis by (simp add: nomes_nth desambiguar_livre)
qed

lemma nomes_nth_livre:
  "i < length textos \<Longrightarrow> nome_base (Suc i) (textos ! i) \<notin> anteriores (nomes_dos_textos textos) i \<Longrightarrow>
   nomes_dos_textos textos ! i = nome_base (Suc i) (textos ! i)"
  by (simp add: nomes_nth desambiguar_livre anteriores_def fset_of_list.rep_eq)

lemma nomes_nth_colide:
  assumes "i < length textos" and "nome_base (Suc i) (textos ! i) \<in> anteriores (nomes_dos_textos textos) i"
  shows "\<exists>k\<ge>2. nomes_dos_textos textos ! i = sufixado (nome_base (Suc i) (textos ! i)) k \<and>
           sufixado (nome_base (Suc i) (textos ! i)) k \<notin> anteriores (nomes_dos_textos textos) i \<and>
           (\<forall>j. 2 \<le> j \<and> j < k \<longrightarrow> sufixado (nome_base (Suc i) (textos ! i)) j \<in> anteriores (nomes_dos_textos textos) i)"
proof -
  let ?b = "nome_base (Suc i) (textos ! i)"
  let ?E = "fset_of_list (take i (nomes_dos_textos textos))"
  from assms(2) have "?b |\<in>| ?E"
    by (simp add: anteriores_def fset_of_list.rep_eq)
  from desambiguar_colide [OF this, of 1 ?b]
  obtain k where k: "1 < k" "desambiguar ?b ?E 1 ?b = sufixado ?b k" "sufixado ?b k |\<notin>| ?E"
    "\<forall>j. 1 < j \<and> j < k \<longrightarrow> sufixado ?b j |\<in>| ?E"
    by auto
  from k(1) have "2 \<le> k" by simp
  moreover from assms(1) k(2) have "nomes_dos_textos textos ! i = sufixado ?b k"
    by (simp add: nomes_nth)
  moreover from k(3) have "sufixado ?b k \<notin> anteriores (nomes_dos_textos textos) i"
    by (simp add: anteriores_def fset_of_list.rep_eq)
  moreover from k(4) have "\<forall>j. 2 \<le> j \<and> j < k \<longrightarrow> sufixado ?b j \<in> anteriores (nomes_dos_textos textos) i"
    by (auto simp: anteriores_def fset_of_list.rep_eq)
  ultimately show ?thesis by blast
qed

lemma laco_dos_textos:
  "map py_str colunas = map Inr textos \<Longrightarrow> laco i colunas st = Inr (laco_textos i textos st)"
proof (induction colunas arbitrary: textos i st)
  case Nil
  then show ?case by simp
next
  case (Cons c cs)
  then obtain t ts where textos: "textos = t # ts" and t: "py_str c = Inr t"
    and ts: "map py_str cs = map Inr ts"
    by (cases textos) auto
  obtain acc E where st: "st = (acc, E)" by (cases st)
  from Cons.IH [OF ts] show ?case by (simp add: textos t st Let_def)
qed

lemma preparar_dos_textos:
  "map py_str colunas = map Inr textos \<Longrightarrow>
   preparar_nomes_colunas colunas = Inr (nomes_dos_textos textos)"
  by (simp add: preparar_nomes_colunas_def laco_dos_textos nomes_dos_textos_def split_def)

lemma laco_Inr_textos:
  "laco i colunas st = Inr st' \<Longrightarrow> \<exists>textos. map py_str colunas = map Inr textos"
proof (induction colunas arbitrary: i st)
  case Nil
  show ?case by simp
next
  case (Cons c cs)
  obtain acc E where st: "st = (acc, E)" by (cases st)
  show ?case
  proof (cases "py_str c")
    case (Inl e)
    with Cons.prems st show ?thesis by simp
  next
    case (Inr t)
    with Cons.prems st obtain st2 where "laco (i + 1) cs st2 = Inr st'"
      by (auto simp: Let_def)
    from Cons.IH [OF this] obtain ts where "map py_str cs = map Inr ts" ..
    with Inr have "map py_str (c # cs) = map Inr (t # ts)" by simp
    then show ?thesis by blast
  qed
qed

lemma preparar_Inr_textos:
  "preparar_nomes_colunas colunas = Inr nomes \<Longrightarrow> \<exists>textos. map py_str colunas = map Inr textos"
  by (auto simp: preparar_nomes_colunas_def split: sum.splits dest: laco_Inr_textos)

lemma preparar_Inr_nomes:
  assumes "preparar_nomes_colunas colunas = Inr nomes"
  obtains textos where "map py_str colunas = map Inr textos" and "nomes = nomes_dos_textos textos"
proof -
  from preparar_Inr_textos [OF assms] obtain textos where t: "map py_str colunas = map Inr textos" ..
  with assms have "nomes = nomes_dos_textos textos" by (simp add: preparar_dos_textos)
  with t that show ?thesis by blast
qed

lemma laco_levanta:
  "map py_str antes = map Inr textos \<Longrightarrow> py_str c = Inl e \<Longrightarrow>
   laco i (antes @ c # depois) st = Inl e"
proof (induction antes arbitrary: textos i st)
  case Nil
  obtain acc E where "st = (acc, E)" by (cases st)
  with Nil show ?case by simp
next
  case (Cons a as)
  then obtain t ts where t: "py_str a = Inr t" and ts: "map py_str as = map Inr ts"
    by (cases textos) auto
  obtain acc E where st: "st = (acc, E)" by (cases st)
  from Cons.IH [OF ts Cons.prems(2)] show ?case by (simp add: t st Let_def)
qed

lemma preparar_levanta:
  assumes "i < length colunas" and "py_str (colunas ! i) = Inl e"
    and "map py_str (take i colunas) = map Inr textos"
  shows "preparar_nomes_colunas colunas = Inl e"
proof -
  from assms(1) have "colunas = take i colunas @ colunas ! i # drop (Suc i) colunas"
    by (rule id_take_nth_drop)
  then have "laco 1 colunas ([], {||}) = laco 1 (take i colunas @ colunas ! i # drop (Suc i) colunas) ([], {||})"
    by simp
  also have "\<dots> = Inl e" using assms(3,2) by (rule laco_levanta)
  finally show ?thesis by (simp add: preparar_nomes_colunas_def)
qed

lemma preparar_prefixo:
  assumes "preparar_nomes_colunas (xs @ ys) = Inr nomes"
  shows "preparar_nomes_colunas xs = Inr (take (length xs) nomes)"
proof -
  from assms obtain textos where t: "map py_str (xs @ ys) = map Inr textos"
    and n: "nomes = nomes_dos_textos textos"
    by (rule preparar_Inr_nomes)
  from t have "take (length xs) (map py_str (xs @ ys)) = take (length xs) (map Inr textos)" by simp
  then have "map py_str xs = map Inr (take (length xs) textos)" by (simp add: take_map)
  then have "preparar_nomes_colunas xs = Inr (nomes_dos_textos (take (length xs) textos))"
    by (rule preparar_dos_textos)
  with n show ?thesis by (simp add: nomes_take)
qed

lemma py_str_PStr: "map py_str (map PStr rotulos) = map Inr rotulos"
  by simp

lemma limite_18: "\<bar>i :: int\<bar> < 10 ^ 18 \<Longrightarrow> \<bar>i\<bar> < 10 ^ int_max_str_digits"
proof -
  assume a: "\<bar>i\<bar> < 10 ^ 18"
  have "(10::int) ^ 18 \<le> 10 ^ int_max_str_digits"
    by (rule power_increasing) (simp_all add: int_max_str_digits_def)
  with a show ?thesis by (rule less_le_trans)
qed

lemma str_int_Inr:
  "\<bar>i\<bar> < 10 ^ int_max_str_digits \<Longrightarrow>
   str_int i = Inr (if i < 0 then 45 # str_nat (nat (- i)) else str_nat (nat i))"
  by (simp add: str_int_def)

lemma str_int_Inl:
  "10 ^ int_max_str_digits \<le> \<bar>i\<bar> \<Longrightarrow> str_int i = Inl (ValueError msg_int_max_str_digits)"
  by (simp add: str_int_def)

lemma str_int_strip:
  assumes "str_int i = Inr ds"
  shows "strip ds = ds \<and> ds \<noteq> []"
proof -
  from assms have ds: "ds = (if i < 0 then 45 # str_nat (nat (- i)) else str_nat (nat i))"
    by (simp add: str_int_def split: if_splits)
  then have "\<forall>c\<in>set ds. \<not> isspace c"
    by (auto simp: isspace_def dest!: str_nat_digitos split: if_splits)
  with ds show ?thesis by (simp add: strip_sem_espacos)
qed

lemmas avaliar = preparar_nomes_colunas_def nome_base_def strip_def lit_def isspace_def
  desambiguar.simps sufixado_def str_nat.simps Let_def

lemma exemplo_aaa:
  "preparar_nomes_colunas [PStr (lit ''a''), PStr (lit ''a''), PStr (lit ''a'')] =
     Inr [lit ''a'', lit ''a_2'', lit ''a_3'']"
  by (simp add: avaliar)

lemma exemplo_vazios:
  "preparar_nomes_colunas [PStr (lit ''''), PStr (lit ''x''), PStr (lit '''')] =
     Inr [lit ''coluna_1'', lit ''x'', lit ''coluna_3'']"
  by (simp add: avaliar)

lemma nomes_casos:
  assumes "map py_str colunas = map Inr textos"
  shows "\<exists>nomes. preparar_nomes_colunas colunas = Inr nomes \<and>
     length nomes = length colunas \<and> [] \<notin> set nomes \<and> distinct nomes \<and>
     (\<forall>i<length colunas.
        (nomes ! i = nome_base (Suc i) (textos ! i) \<or>
         (\<exists>k\<ge>2. nomes ! i = sufixado (nome_base (Suc i) (textos ! i)) k)) \<and>
        (nome_base (Suc i) (textos ! i) \<notin> anteriores nomes i \<longrightarrow>
           nomes ! i = nome_base (Suc i) (textos ! i)) \<and>
        (nome_base (Suc i) (textos ! i) \<in> anteriores nomes i \<longrightarrow>
           (\<exists>k\<ge>2. nomes ! i = sufixado (nome_base (Suc i) (textos ! i)) k \<and>
              sufixado (nome_base (Suc i) (textos ! i)) k \<notin> anteriores nomes i \<and>
              (\<forall>j. 2 \<le> j \<and> j < k \<longrightarrow>
                 sufixado (nome_base (Suc i) (textos ! i)) j \<in> anteriores nomes i)))) \<and>
     ([] \<notin> set (map strip textos) \<and> distinct (map strip textos) \<longrightarrow> nomes = map strip textos)"
proof -
  from assms have l: "length colunas = length textos"
    by (metis length_map)
  have "preparar_nomes_colunas colunas = Inr (nomes_dos_textos textos)"
    using assms by (rule preparar_dos_textos)
  moreover have "length (nomes_dos_textos textos) = length colunas"
    by (simp add: l)
  moreover note nomes_not_Nil [of textos] distinct_nomes [of textos]
  moreover have "\<forall>i<length colunas.
        (nomes_dos_textos textos ! i = nome_base (Suc i) (textos ! i) \<or>
         (\<exists>k\<ge>2. nomes_dos_textos textos ! i = sufixado (nome_base (Suc i) (textos ! i)) k)) \<and>
        (nome_base (Suc i) (textos ! i) \<notin> anteriores (nomes_dos_textos textos) i \<longrightarrow>
           nomes_dos_textos textos ! i = nome_base (Suc i) (textos ! i)) \<and>
        (nome_base (Suc i) (textos ! i) \<in> anteriores (nomes_dos_textos textos) i \<longrightarrow>
           (\<exists>k\<ge>2. nomes_dos_textos textos ! i = sufixado (nome_base (Suc i) (textos ! i)) k \<and>
              sufixado (nome_base (Suc i) (textos ! i)) k \<notin> anteriores (nomes_dos_textos textos) i \<and>
              (\<forall>j. 2 \<le> j \<and> j < k \<longrightarrow>
                 sufixado (nome_base (Suc i) (textos ! i)) j \<in> anteriores (nomes_dos_textos textos) i)))"
    using nomes_nth_casos [of _ textos] nomes_nth_livre [of _ textos] nomes_nth_colide [of _ textos]
    by (simp add: l)
  moreover have "[] \<notin> set (map strip textos) \<and> distinct (map strip textos) \<longrightarrow>
      nomes_dos_textos textos = map strip textos"
    using nomes_limpo [of textos] by blast
  ultimately show ?thesis by blast
qed

lemma str_nat_hd: "hd (str_nat m) = 48 \<Longrightarrow> m = 0"
proof (induction m rule: str_nat.induct)
  case (1 m)
  show ?case
  proof (cases "m < 10")
    case True
    with "1.prems" show ?thesis by (simp add: str_nat.simps [of m])
  next
    case False
    with "1.prems" have "hd (str_nat (m div 10)) = 48"
      by (simp add: str_nat.simps [of m])
    with False 1 have "m div 10 = 0" by simp
    with False show ?thesis by simp
  qed
qed

lemma str_int_exemplos:
  "str_int 3 = Inr (lit ''3'')" "str_int (- 12) = Inr (lit ''-12'')"
  "str_int 0 = Inr (lit ''0'')" "str_int 2024 = Inr (lit ''2024'')"
proof -
  have "\<bar>3 :: int\<bar> < 10 ^ int_max_str_digits" by (rule limite_18) simp
  from str_int_Inr [OF this] show "str_int 3 = Inr (lit ''3'')"
    by (simp add: str_nat.simps lit_def)
  have "\<bar>- 12 :: int\<bar> < 10 ^ int_max_str_digits" by (rule limite_18) simp
  from str_int_Inr [OF this] show "str_int (- 12) = Inr (lit ''-12'')"
    by (simp add: str_nat.simps lit_def)
  have "\<bar>0 :: int\<bar> < 10 ^ int_max_str_digits" by (rule limite_18) simp
  from str_int_Inr [OF this] show "str_int 0 = Inr (lit ''0'')"
    by (simp add: str_nat.simps lit_def)
  have "\<bar>2024 :: int\<bar> < 10 ^ int_max_str_digits" by (rule limite_18) simp
  from str_int_Inr [OF this] show "str_int 2024 = Inr (lit ''2024'')"
    by (simp add: str_nat.simps lit_def)
qed

lemma str_int_longo: "str_int inteiro_de_4301_digitos = Inl (ValueError msg_int_max_str_digits)"
proof (rule str_int_Inl)
  show "10 ^ int_max_str_digits \<le> \<bar>inteiro_de_4301_digitos\<bar>"
    unfolding inteiro_de_4301_digitos_def int_max_str_digits_def by (rule abs_ge_self)
qed

lemma nome_base_str_int:
  "\<bar>n\<bar> < 10 ^ int_max_str_digits \<Longrightarrow>
   \<exists>ds. py_str (PInt n) = Inr ds \<and> nome_base indice ds = ds \<and>
        ds = (if n < 0 then [45] else []) @ str_nat (nat \<bar>n\<bar>)"
proof -
  assume a: "\<bar>n\<bar> < 10 ^ int_max_str_digits"
  let ?ds = "if n < 0 then 45 # str_nat (nat (- n)) else str_nat (nat n)"
  from a have s: "str_int n = Inr ?ds" by (rule str_int_Inr)
  from str_int_strip [OF s] have "nome_base indice ?ds = ?ds"
    by (simp add: nome_base_def)
  moreover have "?ds = (if n < 0 then [45] else []) @ str_nat (nat \<bar>n\<bar>)"
    by simp
  ultimately show ?thesis using s by (intro exI [of _ ?ds]) simp
qed

lemma nome_base_None_nan:
  "nome_base indice (lit ''None'') = lit ''None''" "nome_base indice (lit ''nan'') = lit ''nan''"
  by (simp_all add: nome_base_def strip_def lit_def isspace_def)

section \<open>Properties of the header normalizer\<close>

text \<open>
  C1. Strings are labels on which \<open>str()\<close> returns, the string itself. For every
  sequence of labels on which \<open>str()\<close> returns (\<open>textos\<close> being what it returns),
  \<open>preparar_nomes_colunas\<close> returns as many names as there are labels, none of them
  empty, all of them different; the name at position \<open>i\<close> is the name of the label at
  position \<open>i\<close> (its trimmed text or its placeholder), possibly with a numeric suffix;
  and when the trimmed texts are all non-empty and pairwise different, the result is
  the list of the trimmed texts.
\<close>

theorem preparar_nomes_colunas_normaliza:
  "map py_str (map PStr rotulos) = map Inr rotulos \<and>
   (map py_str colunas = map Inr textos \<longrightarrow>
      (\<exists>nomes. preparar_nomes_colunas colunas = Inr nomes \<and>
         length nomes = length colunas \<and>
         [] \<notin> set nomes \<and>
         distinct nomes \<and>
         (\<forall>i<length colunas.
            nomes ! i = nome_base (Suc i) (textos ! i) \<or>
            (\<exists>k\<ge>2. nomes ! i = sufixado (nome_base (Suc i) (textos ! i)) k)) \<and>
         ([] \<notin> set (map strip textos) \<and> distinct (map strip textos) \<longrightarrow>
            nomes = map strip textos)))"
  using nomes_casos [of colunas textos] by (auto simp: o_def)

theorem preparar_nomes_colunas_normaliza_witness:
  "map py_str [PStr (lit '' Nome''), PStr (lit ''Preco '')] = map Inr [lit '' Nome'', lit ''Preco ''] \<and>
   [] \<notin> set (map strip [lit '' Nome'', lit ''Preco '']) \<and>
   distinct (map strip [lit '' Nome'', lit ''Preco '']) \<and>
   preparar_nomes_colunas [PStr (lit '' Nome''), PStr (lit ''Preco '')] =
     Inr [lit ''Nome'', lit ''Preco'']"
proof -
  have p: "map py_str [PStr (lit '' Nome''), PStr (lit ''Preco '')] =
      map Inr [lit '' Nome'', lit ''Preco '']"
    by simp
  have m: "map strip [lit '' Nome'', lit ''Preco ''] = [lit ''Nome'', lit ''Preco'']"
    by (simp add: strip_def lit_def isspace_def)
  have h: "[] \<notin> set (map strip [lit '' Nome'', lit ''Preco '']) \<and>
     distinct (map strip [lit '' Nome'', lit ''Preco ''])"
    unfolding m by (simp add: lit_def)
  from preparar_nomes_colunas_normaliza
    [of "[]" "[PStr (lit '' Nome''), PStr (lit ''Preco '')]" "[lit '' Nome'', lit ''Preco '']"] p h
  have "preparar_nomes_colunas [PStr (lit '' Nome''), PStr (lit ''Preco '')] =
      Inr (map strip [lit '' Nome'', lit ''Preco ''])"
    by auto
  with p h m show ?thesis by simp
qed

text \<open>
  C2, as the claim states it: the placeholder would be \<open>column_<position>\<close>, and
  the labels \<open>["", "x", ""]\<close> would give \<open>["column_1", "x", "column_3"]\<close>. The
  code writes the Portuguese word, so this is not what it returns.
\<close>

theorem preparar_nomes_colunas_column_counterexample:
  "preparar_nomes_colunas [PStr (lit ''''), PStr (lit ''x''), PStr (lit '''')] \<noteq>
     Inr [lit ''column_1'', lit ''x'', lit ''column_3'']"
  by (simp add: avaliar)

text \<open>
  C2, amended: a label whose trimmed text is empty gets the placeholder
  \<open>coluna_<position>\<close>, built from its 1-based position; this placeholder is the
  name assigned to it whenever no earlier column already has that name; and the labels
  \<open>["", "x", ""]\<close> give \<open>["coluna_1", "x", "coluna_3"]\<close>.
\<close>

theorem preparar_nomes_colunas_vazio:
  "(strip texto = [] \<longrightarrow> nome_base indice texto = lit ''coluna_'' @ str_nat indice) \<and>
   (map py_str colunas = map Inr textos \<longrightarrow>
      (\<exists>nomes. preparar_nomes_colunas colunas = Inr nomes \<and>
         (\<forall>i<length colunas.
            strip (textos ! i) = [] \<and> lit ''coluna_'' @ str_nat (Suc i) \<notin> anteriores nomes i \<longrightarrow>
            nomes ! i = lit ''coluna_'' @ str_nat (Suc i)))) \<and>
   preparar_nomes_colunas [PStr (lit ''''), PStr (lit ''x''), PStr (lit '''')] =
     Inr [lit ''coluna_1'', lit ''x'', lit ''coluna_3'']"
proof -
  have b: "nome_base indice texto = lit ''coluna_'' @ str_nat indice" if "strip texto = []"
    for indice texto
    using that by (simp add: nome_base_def)
  have "\<exists>nomes. preparar_nomes_colunas colunas = Inr nomes \<and>
         (\<forall>i<length colunas.
            strip (textos ! i) = [] \<and> lit ''coluna_'' @ str_nat (Suc i) \<notin> anteriores nomes i \<longrightarrow>
            nomes ! i = lit ''coluna_'' @ str_nat (Suc i))"
    if "map py_str colunas = map Inr textos"
  proof -
    from nomes_casos [OF that] obtain nomes where n: "preparar_nomes_colunas colunas = Inr nomes"
      and l: "\<forall>i<length colunas.
        nome_base (Suc i) (textos ! i) \<notin> anteriores nomes i \<longrightarrow>
           nomes ! i = nome_base (Suc i) (textos ! i)"
      by blast
    have "\<forall>i<length colunas.
            strip (textos ! i) = [] \<and> lit ''coluna_'' @ str_nat (Suc i) \<notin> anteriores nomes i \<longrightarrow>
            nomes ! i = lit ''coluna_'' @ str_nat (Suc i)"
      using l b by auto
    with n show ?thesis by blast
  qed
  with b exemplo_vazios show ?thesis by blast
qed

theorem preparar_nomes_colunas_vazio_witness:
  "strip (lit ''  '') = [] \<and>
   nome_base 4 (lit ''  '') = lit ''coluna_4'' \<and>
   map py_str [PStr (lit ''x''), PStr (lit ''  '')] = map Inr [lit ''x'', lit ''  ''] \<and>
   preparar_nomes_colunas [PStr (lit ''x''), PStr (lit ''  '')] = Inr [lit ''x'', lit ''coluna_2'']"
proof -
  let ?cs = "[PStr (lit ''x''), PStr (lit ''  '')]"
  let ?ts = "[lit ''x'', lit ''  '']"
  have a: "strip (lit ''  '') = []"
    by (simp add: strip_def lit_def isspace_def)
  have p: "map py_str ?cs = map Inr ?ts" by simp
  have e: "preparar_nomes_colunas ?cs = Inr [lit ''x'', lit ''coluna_2'']"
    by (simp add: avaliar)
  from preparar_nomes_colunas_vazio [of "lit ''  ''" 4 ?cs ?ts] a
  have "nome_base 4 (lit ''  '') = lit ''coluna_'' @ str_nat 4" by blast
  with a p e show ?thesis by (simp add: lit_def str_nat.simps)
qed

text \<open>
  C3. A name that no earlier column has been assigned is kept as it is; a name that
  collides with an earlier assigned name gets the suffix \<open>_k\<close>, where \<open>k\<close> is the
  least integer from 2 on whose suffixed name is not yet assigned. The names assigned
  to a prefix of the labels do not depend on the labels after it, so whoever holds a
  name first keeps it. The labels \<open>["a", "a", "a"]\<close> give \<open>["a", "a_2", "a_3"]\<close>.
  The result is a function of the list of labels alone.
\<close>

theorem preparar_nomes_colunas_colisao:
  "(preparar_nomes_colunas (xs @ ys) = Inr todos \<longrightarrow>
      preparar_nomes_colunas xs = Inr (take (length xs) todos)) \<and>
   (map py_str colunas = map Inr textos \<longrightarrow>
      (\<exists>nomes. preparar_nomes_colunas colunas = Inr nomes \<and>
         (\<forall>i<length colunas.
            (nome_base (Suc i) (textos ! i) \<notin> anteriores nomes i \<longrightarrow>
               nomes ! i = nome_base (Suc i) (textos ! i)) \<and>
            (nome_base (Suc i) (textos ! i) \<in> anteriores nomes i \<longrightarrow>
               (\<exists>k\<ge>2. nomes ! i = sufixado (nome_base (Suc i) (textos ! i)) k \<and>
                  sufixado (nome_base (Suc i) (textos ! i)) k \<notin> anteriores nomes i \<and>
                  (\<forall>j. 2 \<le> j \<and> j < k \<longrightarrow>
                     sufixado (nome_base (Suc i) (textos ! i)) j \<in> anteriores nomes i)))))) \<and>
   preparar_nomes_colunas [PStr (lit ''a''), PStr (lit ''a''), PStr (lit ''a'')] =
     Inr [lit ''a'', lit ''a_2'', lit ''a_3'']"
proof -
  have "\<exists>nomes. preparar_nomes_colunas colunas = Inr nomes \<and>
         (\<forall>i<length colunas.
            (nome_base (Suc i) (textos ! i) \<notin> anteriores nomes i \<longrightarrow>
               nomes ! i = nome_base (Suc i) (textos ! i)) \<and>
            (nome_base (Suc i) (textos ! i) \<in> anteriores nomes i \<longrightarrow>
               (\<exists>k\<ge>2. nomes ! i = sufixado (nome_base (Suc i) (textos ! i)) k \<and>
                  sufixado (nome_base (Suc i) (textos ! i)) k \<notin> anteriores nomes i \<and>
                  (\<forall>j. 2 \<le> j \<and> j < k \<longrightarrow>
                     sufixado (nome_base (Suc i) (textos ! i)) j \<in> anteriores nomes i))))"
    if "map py_str colunas = map Inr textos"
    using nomes_casos [OF that] by blast
  then show ?thesis
    using preparar_prefixo [of xs ys todos] exemplo_aaa by blast
qed

theorem preparar_nomes_colunas_colisao_witness:
  "map py_str [PStr (lit ''a''), PStr (lit ''a''), PStr (lit ''a'')] =
     map Inr [lit ''a'', lit ''a'', lit ''a''] \<and>
   preparar_nomes_colunas [PStr (lit ''a''), PStr (lit ''a''), PStr (lit ''a'')] =
     Inr [lit ''a'', lit ''a_2'', lit ''a_3''] \<and>
   nome_base 3 ([lit ''a'', lit ''a'', lit ''a''] ! 2) \<in> anteriores [lit ''a'', lit ''a_2'', lit ''a_3''] 2 \<and>
   (\<exists>k\<ge>2. [lit ''a'', lit ''a_2'', lit ''a_3''] ! 2 =
      sufixado (nome_base 3 ([lit ''a'', lit ''a'', lit ''a''] ! 2)) k \<and>
      sufixado (nome_base 3 ([lit ''a'', lit ''a'', lit ''a''] ! 2)) k
        \<notin> anteriores [lit ''a'', lit ''a_2'', lit ''a_3''] 2)"
proof -
  let ?cs = "[PStr (lit ''a''), PStr (lit ''a''), PStr (lit ''a'')]"
  let ?ts = "[lit ''a'', lit ''a'', lit ''a'']"
  let ?ns = "[lit ''a'', lit ''a_2'', lit ''a_3'']"
  have p: "map py_str ?cs = map Inr ?ts" by simp
  have e: "preparar_nomes_colunas ?cs = Inr ?ns" by (simp add: avaliar)
  have l: "2 < length ?cs" by simp
  have h: "nome_base (Suc 2) (?ts ! 2) \<in> anteriores ?ns 2"
    by (simp add: anteriores_def nome_base_def strip_def lit_def isspace_def)
  from preparar_nomes_colunas_colisao [of "[]" "[]" "[]" ?cs ?ts] p e
  have "\<forall>i<length ?cs.
          nome_base (Suc i) (?ts ! i) \<in> anteriores ?ns i \<longrightarrow>
            (\<exists>k\<ge>2. ?ns ! i = sufixado (nome_base (Suc i) (?ts ! i)) k \<and>
               sufixado (nome_base (Suc i) (?ts ! i)) k \<notin> anteriores ?ns i)"
    by auto
  with l h have "\<exists>k\<ge>2. ?ns ! 2 = sufixado (nome_base (Suc 2) (?ts ! 2)) k \<and>
      sufixado (nome_base (Suc 2) (?ts ! 2)) k \<notin> anteriores ?ns 2"
    by blast
  with p e h show ?thesis by (simp add: eval_nat_numeral)
qed

text \<open>
  C10, as the claim states it: the normalizer would return for arbitrary Python values.
  It does not: \<open>str(coluna)\<close> at line 49 raises for an integer of more than 4300
  digits and for an object whose \<open>__str__\<close> raises, and the exception leaves
  \<open>preparar_nomes_colunas\<close>.
\<close>

theorem preparar_nomes_colunas_total_counterexample:
  "preparar_nomes_colunas [PStr (lit ''a''), PInt inteiro_de_4301_digitos] =
     Inl (ValueError msg_int_max_str_digits) \<and>
   preparar_nomes_colunas [POther (Inl (OutraExcecao (lit ''RuntimeError'')))] =
     Inl (OutraExcecao (lit ''RuntimeError''))"
  by (simp add: preparar_nomes_colunas_def str_int_longo Let_def)

text \<open>
  C10, amended: every label is first turned into text with \<open>str()\<close>.
  When \<open>str()\<close> raises for a label (an integer of more than 4300 digits, an object
  whose \<open>__str__\<close> raises), \<open>preparar_nomes_colunas\<close> raises that exception, and it
  returns only when \<open>str()\<close> returns for every label.
  When \<open>str()\<close> returns for every label, the result has the length of the list, no
  empty name and no repeated name, whatever the labels are; a label that is not a
  string is named after its text and never after the placeholder of an empty label:
  an integer of at most 4300 digits after its decimal digits (with \<open>-\<close> before them
  when it is negative; the digits have no leading zero and denote the integer),
  \<open>None\<close> after \<open>"None"\<close>, the float NaN after \<open>"nan"\<close>.
\<close>

theorem preparar_nomes_colunas_str:
  "(i < length colunas \<and> py_str (colunas ! i) = Inl e \<and>
      map py_str (take i colunas) = map Inr antes \<longrightarrow>
      preparar_nomes_colunas colunas = Inl e) \<and>
   (preparar_nomes_colunas colunas = Inr nomes \<longrightarrow>
      (\<exists>textos. map py_str colunas = map Inr textos)) \<and>
   (map py_str colunas = map Inr textos \<longrightarrow>
      (\<exists>nomes. preparar_nomes_colunas colunas = Inr nomes \<and>
         length nomes = length colunas \<and> [] \<notin> set nomes \<and> distinct nomes)) \<and>
   (10 ^ int_max_str_digits \<le> \<bar>n\<bar> \<longrightarrow> py_str (PInt n) = Inl (ValueError msg_int_max_str_digits)) \<and>
   (\<bar>n\<bar> < 10 ^ int_max_str_digits \<longrightarrow>
      (\<exists>ds. py_str (PInt n) = Inr ds \<and> nome_base indice ds = ds \<and>
         ds = (if n < 0 then [45] else []) @ str_nat (nat \<bar>n\<bar>))) \<and>
   valor_decimal (str_nat m) = m \<and>
   (\<forall>c\<in>set (str_nat m). 48 \<le> c \<and> c \<le> 57) \<and>
   str_nat m \<noteq> [] \<and>
   (hd (str_nat m) = 48 \<longrightarrow> m = 0) \<and>
   py_str PNone = Inr (lit ''None'') \<and> nome_base indice (lit ''None'') = lit ''None'' \<and>
   py_str PNaN = Inr (lit ''nan'') \<and> nome_base indice (lit ''nan'') = lit ''nan'' \<and>
   preparar_nomes_colunas [PInt 3, PNone, PNaN] = Inr [lit ''3'', lit ''None'', lit ''nan''] \<and>
   preparar_nomes_colunas [PInt (- 12), PInt 0, PInt 2024] = Inr [lit ''-12'', lit ''0'', lit ''2024'']"
proof -
  have "\<exists>nomes. preparar_nomes_colunas colunas = Inr nomes \<and>
         length nomes = length colunas \<and> [] \<notin> set nomes \<and> distinct nomes"
    if "map py_str colunas = map Inr textos"
    using nomes_casos [OF that] by blast
  moreover have "preparar_nomes_colunas [PInt 3, PNone, PNaN] = Inr [lit ''3'', lit ''None'', lit ''nan'']"
    by (simp add: avaliar str_int_exemplos)
  moreover have "preparar_nomes_colunas [PInt (- 12), PInt 0, PInt 2024] =
      Inr [lit ''-12'', lit ''0'', lit ''2024'']"
    by (simp add: avaliar str_int_exemplos)
  moreover have "\<forall>c\<in>set (str_nat m). 48 \<le> c \<and> c \<le> 57"
    using str_nat_digitos by blast
  ultimately show ?thesis
    using preparar_levanta [of i colunas e antes] preparar_Inr_textos [of colunas nomes]
      str_int_Inl [of n] nome_base_str_int [of n indice] str_nat_hd [of m]
      nome_base_None_nan [of indice]
    by simp
qed

theorem preparar_nomes_colunas_str_witness:
  "\<bar>- 12 :: int\<bar> < 10 ^ int_max_str_digits \<and>
   py_str (PInt (- 12)) = Inr (lit ''-12'') \<and>
   nome_base 1 (lit ''-12'') = lit ''-12'' \<and>
   map py_str [PInt 3, PNone, PNaN] = map Inr [lit ''3'', lit ''None'', lit ''nan''] \<and>
   (\<exists>nomes. preparar_nomes_colunas [PInt 3, PNone, PNaN] = Inr nomes \<and>
      length nomes = 3 \<and> [] \<notin> set nomes \<and> distinct nomes) \<and>
   py_str ([PNone, POther (Inl (OutraExcecao (lit ''RuntimeError'')))] ! 1) =
     Inl (OutraExcecao (lit ''RuntimeError'')) \<and>
   preparar_nomes_colunas [PNone, POther (Inl (OutraExcecao (lit ''RuntimeError'')))] =
     Inl (OutraExcecao (lit ''RuntimeError''))"
proof -
  have a: "\<bar>- 12 :: int\<bar> < 10 ^ int_max_str_digits" by (rule limite_18) simp
  have p: "map py_str [PInt 3, PNone, PNaN] = map Inr [lit ''3'', lit ''None'', lit ''nan'']"
    by (simp add: str_int_exemplos)
  let ?cs = "[PNone, POther (Inl (OutraExcecao (lit ''RuntimeError'')))]"
  have f: "1 < length ?cs \<and> py_str (?cs ! 1) = Inl (OutraExcecao (lit ''RuntimeError'')) \<and>
      map py_str (take 1 ?cs) = map Inr [lit ''None'']"
    by simp
  from preparar_nomes_colunas_str
    [of 1 ?cs "OutraExcecao (lit ''RuntimeError'')" "[lit ''None'']" "[]" "[]" "- 12" 1 0] f a
  have 1: "preparar_nomes_colunas ?cs = Inl (OutraExcecao (lit ''RuntimeError''))"
    and 2: "\<exists>ds. py_str (PInt (- 12)) = Inr ds \<and> nome_base 1 ds = ds \<and>
         ds = (if (- 12 :: int) < 0 then [45] else []) @ str_nat (nat \<bar>- 12 :: int\<bar>)"
    by blast+
  from 2 have 3: "py_str (PInt (- 12)) = Inr (lit ''-12'') \<and> nome_base 1 (lit ''-12'') = lit ''-12''"
    by (auto simp: str_nat.simps lit_def)
  from preparar_nomes_colunas_str
    [of 0 "[PInt 3, PNone, PNaN]" "ValueError []" "[]" "[]" "[lit ''3'', lit ''None'', lit ''nan'']" 0 1 0] p
  have "\<exists>nomes. preparar_nomes_colunas [PInt 3, PNone, PNaN] = Inr nomes \<and>
      length nomes = length [PInt 3, PNone, PNaN] \<and> [] \<notin> set nomes \<and> distinct nomes"
    by blast
  then have 4: "\<exists>nomes. preparar_nomes_colunas [PInt 3, PNone, PNaN] = Inr nomes \<and>
      length nomes = 3 \<and> [] \<notin> set nomes \<and> distinct nomes"
    by (simp add: numeral_3_eq_3)
  from a p f 1 3 4 show ?thesis by simp
qed

section \<open>Facts about the connection and the orchestrator\<close>

lemma rollback_atual [simp]: "rollback (c\<lparr>atual := t\<rparr>) = rollback c"
  by (simp add: rollback_def)

lemma inserir_linhas_rollback:
  "rollback (snd (inserir_linhas amb n ls c)) = rollback c"
  by (induction ls arbitrary: c) simp_all

lemma inserir_linhas_fst:
  "fst (inserir_linhas amb n ls c) = None \<longleftrightarrow> linhas_aceitas amb n ls"
  by (induction ls arbitrary: c) (simp_all add: linhas_aceitas_def)

lemma inserir_linhas_ok:
  "linhas_aceitas amb n ls \<Longrightarrow>
   inserir_linhas amb n ls c =
     (None, c\<lparr>atual := map_option (\<lambda>(colunas, registros). (colunas, registros @ ls)) (atual c)\<rparr>)"
proof (induction ls arbitrary: c)
  case Nil
  show ?case by (cases "atual c") (simp_all add: option.map_ident split_def)
next
  case (Cons l ls)
  then have "linhas_aceitas amb n ls" and "length l = n" and "list_all (sqlite_aceita amb) l"
    by (simp_all add: linhas_aceitas_def)
  with Cons.IH show ?case
    by (cases "atual c") (simp_all add: split_def)
qed

lemma preparar_length:
  "preparar_nomes_colunas colunas = Inr nomes \<Longrightarrow> length nomes = length colunas"
proof -
  assume a: "preparar_nomes_colunas colunas = Inr nomes"
  then obtain textos where t: "map py_str colunas = map Inr textos"
    and n: "nomes = nomes_dos_textos textos"
    by (rule preparar_Inr_nomes)
  from t have "length colunas = length textos" by (metis length_map)
  with n show ?thesis by simp
qed

lemma read_planilha_Inr:
  "read_planilha amb p = Inr df \<Longrightarrow> columns df \<noteq> [] \<and> linhas df \<noteq> []"
  by (auto simp: read_planilha_def Let_def df_empty_def split: sum.splits if_splits)

lemma valores_columns [simp]: "valores (df\<lparr>columns := cs\<rparr>) = valores df"
  by (simp add: valores_def)

lemma importar_leitura_falha:
  "read_planilha amb p = Inl e \<Longrightarrow>
   importar_planilha amb p b = \<lparr>erro = Some e, banco_final = b, conexao_final = None\<rparr>"
  by (simp add: importar_planilha_def)

lemma importar_normalizador_falha:
  "read_planilha amb p = Inr df \<Longrightarrow> preparar_nomes_colunas (columns df) = Inl e \<Longrightarrow>
   importar_planilha amb p b = \<lparr>erro = Some e, banco_final = b, conexao_final = None\<rparr>"
  by (simp add: importar_planilha_def)

lemma read_csv_exemplo:
  "columns df \<noteq> [] \<Longrightarrow> linhas df \<noteq> [] \<Longrightarrow> read_planilha (ambiente_csv df) caminho_csv = Inr df"
  by (simp add: read_planilha_def caminho_csv_def ambiente_csv_def lower_def lit_def df_empty_def)

lemmas passos = importar_planilha_def Let_def criar_tabela_produtos_def entao_def connect_def
  alterar_def sair_def rollback_def commit_def inserir_registros_def

lemma importar_drop_recusado:
  assumes "read_planilha amb p = Inr df" and "preparar_nomes_colunas (columns df) = Inr nomes"
    and "sqlite_recusa amb DropTableIfExists = Some x"
  shows "importar_planilha amb p b =
     \<lparr>erro = Some x, banco_final = b,
      conexao_final = Some \<lparr>gravado = b, atual = b, em_transacao = False, aberta = True\<rparr>\<rparr>"
  using assms by (simp add: passos)

lemma importar_duplicadas:
  assumes "read_planilha amb p = Inr df" and "preparar_nomes_colunas (columns df) = Inr nomes"
    and "sqlite_recusa amb DropTableIfExists = None"
    and "\<not> distinct (map lower nomes)"
  shows "importar_planilha amb p b =
     \<lparr>erro = Some (OperationalError (lit ''duplicate column name'')), banco_final = None,
      conexao_final = Some \<lparr>gravado = None, atual = None, em_transacao = False, aberta = True\<rparr>\<rparr>"
proof -
  from assms(1,2) have "nomes \<noteq> []"
    using read_planilha_Inr [of amb p df] preparar_length [of "columns df" nomes] by auto
  with assms show ?thesis by (simp add: passos)
qed

lemma importar_create_recusado:
  assumes "read_planilha amb p = Inr df" and "preparar_nomes_colunas (columns df) = Inr nomes"
    and "sqlite_recusa amb DropTableIfExists = None"
    and "distinct (map lower nomes)"
    and "sqlite_recusa amb (CreateTable nomes) = Some x"
  shows "importar_planilha amb p b =
     \<lparr>erro = Some x, banco_final = None,
      conexao_final = Some \<lparr>gravado = None, atual = None, em_transacao = False, aberta = True\<rparr>\<rparr>"
proof -
  from assms(1,2) have "nomes \<noteq> []"
    using read_planilha_Inr [of amb p df] preparar_length [of "columns df" nomes] by auto
  with assms show ?thesis by (simp add: passos)
qed

lemma importar_insercao_falha:
  assumes "read_planilha amb p = Inr df" and "preparar_nomes_colunas (columns df) = Inr nomes"
    and "sqlite_recusa amb DropTableIfExists = None"
    and "distinct (map lower nomes)"
    and "sqlite_recusa amb (CreateTable nomes) = None"
    and "\<not> linhas_aceitas amb (length nomes) (valores df)"
  shows "erro (importar_planilha amb p b) \<noteq> None \<and>
     banco_final (importar_planilha amb p b) = Some (nomes, []) \<and>
     conexao_final (importar_planilha amb p b) = Some
        \<lparr>gravado = Some (nomes, []), atual = Some (nomes, []),
         em_transacao = False, aberta = True\<rparr>"
proof -
  let ?c = "\<lparr>gravado = Some (nomes, []), atual = Some (nomes, []), em_transacao = True, aberta = True\<rparr>"
  obtain e c' where r: "inserir_linhas amb (length nomes) (valores df) ?c = (e, c')"
    by (cases "inserir_linhas amb (length nomes) (valores df) ?c")
  from assms(6) have "e \<noteq> None"
    using inserir_linhas_fst [of amb "length nomes" "valores df" ?c] r by simp
  then obtain x where e: "e = Some x" by auto
  have rb: "rollback c' = rollback ?c"
    using inserir_linhas_rollback [of amb "length nomes" "valores df" ?c] r by simp
  from assms(1,2) have "nomes \<noteq> []"
    using read_planilha_Inr [of amb p df] preparar_length [of "columns df" nomes] by auto
  with assms r e rb show ?thesis
    by (simp add: importar_planilha_def Let_def criar_tabela_produtos_def entao_def connect_def
        alterar_def sair_def inserir_registros_def) (simp add: rollback_def)
qed

lemma importar_commit_recusado:
  assumes "read_planilha amb p = Inr df" and "preparar_nomes_colunas (columns df) = Inr nomes"
    and "sqlite_recusa amb DropTableIfExists = None"
    and "distinct (map lower nomes)"
    and "sqlite_recusa amb (CreateTable nomes) = None"
    and "linhas_aceitas amb (length nomes) (valores df)"
    and "commit_recusado amb = Some x"
  shows "importar_planilha amb p b =
     \<lparr>erro = Some x, banco_final = Some (nomes, []),
      conexao_final = Some
        \<lparr>gravado = Some (nomes, []), atual = Some (nomes, []),
         em_transacao = False, aberta = True\<rparr>\<rparr>"
proof -
  from assms(1,2) have "nomes \<noteq> []"
    using read_planilha_Inr [of amb p df] preparar_length [of "columns df" nomes] by auto
  with assms show ?thesis by (simp add: passos inserir_linhas_ok)
qed

lemma importar_sucesso:
  assumes "read_planilha amb p = Inr df" and "preparar_nomes_colunas (columns df) = Inr nomes"
    and "sqlite_recusa amb DropTableIfExists = None"
    and "distinct (map lower nomes)"
    and "sqlite_recusa amb (CreateTable nomes) = None"
    and "linhas_aceitas amb (length nomes) (valores df)"
    and "commit_recusado amb = None"
  shows "importar_planilha amb p b =
     \<lparr>erro = None, banco_final = Some (nomes, valores df),
      conexao_final = Some
        \<lparr>gravado = Some (nomes, valores df), atual = Some (nomes, valores df),
         em_transacao = False, aberta = True\<rparr>\<rparr>"
proof -
  from assms(1,2) have "nomes \<noteq> []"
    using read_planilha_Inr [of amb p df] preparar_length [of "columns df" nomes] by auto
  with assms show ?thesis by (simp add: passos inserir_linhas_ok)
qed

text \<open>The conditions under which a run whose frame and names are at hand commits.\<close>

lemma importar_sem_erro:
  assumes "read_planilha amb p = Inr df" and "preparar_nomes_colunas (columns df) = Inr nomes"
  shows "erro (importar_planilha amb p b) = None \<longleftrightarrow>
     sqlite_recusa amb DropTableIfExists = None \<and> distinct (map lower nomes) \<and>
     sqlite_recusa amb (CreateTable nomes) = None \<and>
     linhas_aceitas amb (length nomes) (valores df) \<and> commit_recusado amb = None"
proof (cases "sqlite_recusa amb DropTableIfExists")
  case (Some x)
  with assms show ?thesis by (simp add: importar_drop_recusado)
next
  case d: None
  show ?thesis
  proof (cases "distinct (map lower nomes)")
    case False
    with assms d show ?thesis by (simp add: importar_duplicadas)
  next
    case u: True
    show ?thesis
    proof (cases "sqlite_recusa amb (CreateTable nomes)")
      case (Some x)
      with assms d u show ?thesis by (simp add: importar_create_recusado)
    next
      case k: None
      show ?thesis
      proof (cases "linhas_aceitas amb (length nomes) (valores df)")
        case False
        with assms d u k importar_insercao_falha [of amb p df nomes b] show ?thesis by auto
      next
        case a: True
        show ?thesis
        proof (cases "commit_recusado amb")
          case (Some x)
          with assms d u k a show ?thesis by (simp add: importar_commit_recusado)
        next
          case None
          with assms d u k a show ?thesis by (simp add: importar_sucesso)
        qed
      qed
    qed
  qed
qed

lemma importar_casos:
  assumes "read_planilha amb p = Inr df" and "preparar_nomes_colunas (columns df) = Inr nomes"
  shows "(erro (importar_planilha amb p b) = None \<longrightarrow>
            banco_final (importar_planilha amb p b) = Some (nomes, valores df)) \<and>
         (erro (importar_planilha amb p b) \<noteq> None \<longrightarrow>
            banco_final (importar_planilha amb p b) = b \<or>
            banco_final (importar_planilha amb p b) = None \<or>
            banco_final (importar_planilha amb p b) = Some (nomes, [])) \<and>
         (sqlite_recusa amb DropTableIfExists \<noteq> None \<longrightarrow>
            erro (importar_planilha amb p b) \<noteq> None \<and>
            banco_final (importar_planilha amb p b) = b) \<and>
         (\<exists>c. conexao_final (importar_planilha amb p b) = Some c \<and> aberta c \<and>
              \<not> em_transacao c \<and> atual c = gravado c \<and>
              gravado c = banco_final (importar_planilha amb p b))"
proof (cases "sqlite_recusa amb DropTableIfExists")
  case (Some x)
  with assms show ?thesis by (simp add: importar_drop_recusado)
next
  case d: None
  show ?thesis
  proof (cases "distinct (map lower nomes)")
    case False
    with assms d show ?thesis by (simp add: importar_duplicadas)
  next
    case u: True
    show ?thesis
    proof (cases "sqlite_recusa amb (CreateTable nomes)")
      case (Some x)
      with assms d u show ?thesis by (simp add: importar_create_recusado)
    next
      case k: None
      show ?thesis
      proof (cases "linhas_aceitas amb (length nomes) (valores df)")
        case False
        with assms d u k importar_insercao_falha [of amb p df nomes b] show ?thesis by auto
      next
        case a: True
        show ?thesis
        proof (cases "commit_recusado amb")
          case (Some x)
          with assms d u k a show ?thesis by (simp add: importar_commit_recusado)
        next
          case None
          with assms d u k a show ?thesis by (simp add: importar_sucesso)
        qed
      qed
    qed
  qed
qed

lemma valores_nth:
  "r < length (linhas dados) \<Longrightarrow> k < length (linhas dados ! r) \<Longrightarrow>
   valores dados ! r ! k = (if isna (linhas dados ! r ! k) then PNone else linhas dados ! r ! k)"
  by (simp add: valores_def)

lemma inserir_registros_ok:
  "linhas_aceitas amb (length colunas) (valores dados) \<Longrightarrow> atual cursor = Some (colunas, registros) \<Longrightarrow>
   \<exists>c. inserir_registros amb colunas dados cursor = (None, c) \<and>
       atual c = Some (colunas, registros @ valores dados)"
  by (simp add: inserir_registros_def inserir_linhas_ok)

lemma preparar_exemplo:
  "preparar_nomes_colunas (columns planilha_exemplo) = Inr [lit ''Nome'', lit ''Preco'']"
  by (simp add: planilha_exemplo_def avaliar)

lemma valores_exemplo:
  "valores planilha_exemplo = [[PStr (lit ''lapis''), PInt 3], [PNone, PInt 4]]"
  by (simp add: valores_def planilha_exemplo_def)

lemma read_exemplo: "read_planilha (ambiente_csv planilha_exemplo) caminho_csv = Inr planilha_exemplo"
  by (rule read_csv_exemplo) (simp_all add: planilha_exemplo_def)

lemma importar_exemplo:
  "importar_planilha (ambiente_csv planilha_exemplo) caminho_csv b =
     \<lparr>erro = None,
      banco_final = Some ([lit ''Nome'', lit ''Preco''], [[PStr (lit ''lapis''), PInt 3], [PNone, PInt 4]]),
      conexao_final = Some
        \<lparr>gravado = Some ([lit ''Nome'', lit ''Preco''], [[PStr (lit ''lapis''), PInt 3], [PNone, PInt 4]]),
         atual = Some ([lit ''Nome'', lit ''Preco''], [[PStr (lit ''lapis''), PInt 3], [PNone, PInt 4]]),
         em_transacao = False, aberta = True\<rparr>\<rparr>"
proof -
  have "linhas_aceitas (ambiente_csv planilha_exemplo) (length [lit ''Nome'', lit ''Preco''])
      (valores planilha_exemplo)"
    by (simp add: linhas_aceitas_def valores_exemplo ambiente_csv_def)
  moreover have "distinct (map lower [lit ''Nome'', lit ''Preco''])"
    by (simp add: lower_def lit_def)
  moreover have "sqlite_recusa (ambiente_csv planilha_exemplo) i = None"
    "commit_recusado (ambiente_csv planilha_exemplo) = None" for i
    by (simp_all add: ambiente_csv_def)
  ultimately show ?thesis
    using importar_sucesso [OF read_exemplo preparar_exemplo, of b]
    by (simp add: valores_exemplo)
qed

lemma read_Aa: "read_planilha (ambiente_csv planilha_Aa) caminho_csv = Inr planilha_Aa"
  by (rule read_csv_exemplo) (simp_all add: planilha_Aa_def)

lemma preparar_Aa: "preparar_nomes_colunas (columns planilha_Aa) = Inr [lit ''A'', lit ''a'']"
  by (simp add: planilha_Aa_def avaliar)

lemma importar_Aa:
  "importar_planilha (ambiente_csv planilha_Aa) caminho_csv b =
     \<lparr>erro = Some (OperationalError (lit ''duplicate column name'')), banco_final = None,
      conexao_final = Some \<lparr>gravado = None, atual = None, em_transacao = False, aberta = True\<rparr>\<rparr>"
proof (rule importar_duplicadas [OF read_Aa preparar_Aa])
  show "sqlite_recusa (ambiente_csv planilha_Aa) DropTableIfExists = None"
    by (simp add: ambiente_csv_def)
  show "\<not> distinct (map lower [lit ''A'', lit ''a''])"
    by (simp add: lower_def lit_def)
qed

section \<open>Properties of the reader, the writer and the orchestrator\<close>

text \<open>
  C4. The list \<open>valores\<close> that \<open>inserir_registros\<close> hands to \<open>executemany\<close> has the
  shape of the frame. A cell that \<open>pd.isna\<close> reports as missing is replaced by \<open>None\<close>,
  the value bound as NULL, so that neither the text \<open>"NaN"\<close> nor the empty text stands
  for it; every other cell is passed as it is. When the rows are accepted they are
  appended to the table as they were passed. The text of the statement is made of the
  column names and of one \<open>?\<close> per column: the cells travel as parameters and are no
  part of it.
\<close>

theorem inserir_registros_nulos:
  "length (valores dados) = length (linhas dados) \<and>
   (\<forall>r<length (linhas dados).
      length (valores dados ! r) = length (linhas dados ! r) \<and>
      (\<forall>k<length (linhas dados ! r).
         (isna (linhas dados ! r ! k) \<longrightarrow>
            valores dados ! r ! k = PNone \<and> valores dados ! r ! k \<noteq> PStr (lit ''NaN'') \<and>
            valores dados ! r ! k \<noteq> PStr []) \<and>
         (\<not> isna (linhas dados ! r ! k) \<longrightarrow> valores dados ! r ! k = linhas dados ! r ! k))) \<and>
   (linhas_aceitas amb (length colunas) (valores dados) \<and> atual cursor = Some (colunas, registros) \<longrightarrow>
      (\<exists>c. inserir_registros amb colunas dados cursor = (None, c) \<and>
           atual c = Some (colunas, registros @ valores dados))) \<and>
   sql (InsertInto colunas) =
     lit ''INSERT INTO produtos_bling ('' @
     join (lit '', '') (map (\<lambda>nome. [34] @ escapar_identificador nome @ [34]) colunas) @
     lit '') VALUES ('' @ join (lit '', '') (replicate (length colunas) (lit ''?'')) @ lit '')''"
proof -
  have "length (valores dados) = length (linhas dados)"
    by (simp add: valores_def)
  moreover have "length (valores dados ! r) = length (linhas dados ! r)"
    if "r < length (linhas dados)" for r
    using that by (simp add: valores_def)
  ultimately show ?thesis
    using inserir_registros_ok [of amb colunas dados cursor registros]
    by (simp add: valores_nth)
qed

theorem inserir_registros_nulos_witness:
  "isna (linhas planilha_exemplo ! 1 ! 0) \<and>
   valores planilha_exemplo ! 1 ! 0 = PNone \<and>
   \<not> isna (linhas planilha_exemplo ! 0 ! 0) \<and>
   valores planilha_exemplo ! 0 ! 0 = PStr (lit ''lapis'') \<and>
   valores planilha_exemplo = [[PStr (lit ''lapis''), PInt 3], [PNone, PInt 4]]"
proof -
  have l: "1 < length (linhas planilha_exemplo)" "0 < length (linhas planilha_exemplo)"
    "0 < length (linhas planilha_exemplo ! 1)" "0 < length (linhas planilha_exemplo ! 0)"
    by (simp_all add: planilha_exemplo_def)
  have h: "isna (linhas planilha_exemplo ! 1 ! 0)" "\<not> isna (linhas planilha_exemplo ! 0 ! 0)"
    by (simp_all add: planilha_exemplo_def)
  from inserir_registros_nulos [of planilha_exemplo] l h
  have "valores planilha_exemplo ! 1 ! 0 = PNone"
    "valores planilha_exemplo ! 0 ! 0 = linhas planilha_exemplo ! 0 ! 0"
    by blast+
  moreover have "valores planilha_exemplo = [[PStr (lit ''lapis''), PInt 3], [PNone, PInt 4]]"
    by (simp add: valores_def planilha_exemplo_def)
  ultimately show ?thesis using h by (simp add: planilha_exemplo_def)
qed




text \<open>
  C6. When a run ends without an exception, running the same import again on the
  database it left gives the same result, and so does running it on any other
  content of the database: the table holds the normalized headers and the rows of
  the file, and nothing of what was there before.
\<close>

theorem importar_planilha_idempotente:
  "erro (importar_planilha amb p b) = None \<Longrightarrow>
   importar_planilha amb p (banco_final (importar_planilha amb p b)) = importar_planilha amb p b \<and>
   importar_planilha amb p b' = importar_planilha amb p b \<and>
   (\<exists>df nomes. read_planilha amb p = Inr df \<and> preparar_nomes_colunas (columns df) = Inr nomes \<and>
      banco_final (importar_planilha amb p b) = Some (nomes, valores df))"
proof -
  assume ok: "erro (importar_planilha amb p b) = None"
  show ?thesis
  proof (cases "read_planilha amb p")
    case (Inl e)
    with ok show ?thesis by (simp add: importar_leitura_falha)
  next
    case (Inr df)
    show ?thesis
    proof (cases "preparar_nomes_colunas (columns df)")
      case (Inl e)
      with Inr ok show ?thesis by (simp add: importar_normalizador_falha)
    next
      case n: (Inr nomes)
      from importar_sem_erro [OF Inr n, of b] ok
      have c: "sqlite_recusa amb DropTableIfExists = None" "distinct (map lower nomes)"
        "sqlite_recusa amb (CreateTable nomes) = None"
        "linhas_aceitas amb (length nomes) (valores df)" "commit_recusado amb = None"
        by simp_all
      from Inr n show ?thesis
        by (simp add: importar_sucesso [OF Inr n c])
    qed
  qed
qed

theorem importar_planilha_idempotente_witness:
  "erro (importar_planilha (ambiente_csv planilha_exemplo) caminho_csv (Some tabela_antiga)) = None \<and>
   importar_planilha (ambiente_csv planilha_exemplo) caminho_csv
     (banco_final (importar_planilha (ambiente_csv planilha_exemplo) caminho_csv (Some tabela_antiga))) =
   importar_planilha (ambiente_csv planilha_exemplo) caminho_csv (Some tabela_antiga)"
proof -
  have e: "erro (importar_planilha (ambiente_csv planilha_exemplo) caminho_csv (Some tabela_antiga)) = None"
    by (simp add: importar_exemplo)
  from importar_planilha_idempotente [OF e] e show ?thesis by simp
qed

text \<open>
  C7. When the suffix of the path, in lower case, is none of \<open>.csv\<close>, \<open>.xls\<close> and
  \<open>.xlsx\<close>, \<open>read_planilha\<close> raises the ValueError of the unsupported format (the
  UnsupportedFormat of the specification), whose message names the three suffixes;
  \<open>importar_planilha\<close> then ends with that exception before any connection is opened,
  and the table is as it was.
\<close>

theorem read_planilha_formato:
  "lower (suffix caminho) \<notin> {lit ''.csv'', lit ''.xls'', lit ''.xlsx''} \<Longrightarrow>
   read_planilha amb caminho = Inl (ValueError msg_formato) \<and>
   importar_planilha amb caminho banco =
     \<lparr>erro = Some (ValueError msg_formato), banco_final = banco, conexao_final = None\<rparr> \<and>
   msg_formato =
     lit ''Formato de arquivo n'' @ [227] @ lit ''o suportado. Utilize arquivos '' @
     lit ''.csv'' @ lit '', '' @ lit ''.xls'' @ lit '' ou '' @ lit ''.xlsx'' @ lit ''.''"
proof -
  assume "lower (suffix caminho) \<notin> {lit ''.csv'', lit ''.xls'', lit ''.xlsx''}"
  then have "read_planilha amb caminho = Inl (ValueError msg_formato)"
    by (simp add: read_planilha_def)
  moreover have "msg_formato =
     lit ''Formato de arquivo n'' @ [227] @ lit ''o suportado. Utilize arquivos '' @
     lit ''.csv'' @ lit '', '' @ lit ''.xls'' @ lit '' ou '' @ lit ''.xlsx'' @ lit ''.''"
    by (simp add: msg_formato_def lit_def)
  ultimately show ?thesis by (simp add: importar_leitura_falha)
qed

theorem read_planilha_formato_witness:
  "lower (suffix \<lparr>como_texto = lit ''notas.TXT'', suffix = lit ''.TXT''\<rparr>) = lit ''.txt'' \<and>
   read_planilha (ambiente_csv planilha_exemplo) \<lparr>como_texto = lit ''notas.TXT'', suffix = lit ''.TXT''\<rparr> =
     Inl (ValueError msg_formato) \<and>
   banco_final (importar_planilha (ambiente_csv planilha_exemplo)
     \<lparr>como_texto = lit ''notas.TXT'', suffix = lit ''.TXT''\<rparr> (Some tabela_antiga)) = Some tabela_antiga"
proof -
  have l: "lower (suffix \<lparr>como_texto = lit ''notas.TXT'', suffix = lit ''.TXT''\<rparr>) = lit ''.txt''"
    by (simp add: lower_def lit_def)
  then have h: "lower (suffix \<lparr>como_texto = lit ''notas.TXT'', suffix = lit ''.TXT''\<rparr>)
      \<notin> {lit ''.csv'', lit ''.xls'', lit ''.xlsx''}"
    by (simp add: lit_def)
  from read_planilha_formato [OF h, of "ambiente_csv planilha_exemplo" "Some tabela_antiga"] l
  show ?thesis by simp
qed

text \<open>
  C8. For a path with a supported suffix whose parser returns a frame: when the frame
  has no row, \<open>read_planilha\<close> raises the ValueError of the empty sheet (the EmptyInput
  of the specification), and \<open>importar_planilha\<close> ends with it before any connection is
  opened, the table being as it was; when the frame has a row (and so a column), the
  reader returns the frame. The reader is a function of the environment and the path:
  it changes nothing.
\<close>

theorem read_planilha_vazia:
  assumes "lower (suffix caminho) = lit ''.csv'' \<and> read_csv amb caminho = Inr df \<or>
           lower (suffix caminho) \<in> {lit ''.xls'', lit ''.xlsx''} \<and> read_excel amb caminho = Inr df"
  shows "(linhas df = [] \<longrightarrow>
            read_planilha amb caminho = Inl (ValueError msg_vazia) \<and>
            importar_planilha amb caminho banco =
              \<lparr>erro = Some (ValueError msg_vazia), banco_final = banco, conexao_final = None\<rparr>) \<and>
         (linhas df \<noteq> [] \<and> columns df \<noteq> [] \<longrightarrow> read_planilha amb caminho = Inr df)"
proof -
  have x: "lit ''.xls'' \<noteq> lit ''.csv''" "lit ''.xlsx'' \<noteq> lit ''.csv''"
    by (simp_all add: lit_def)
  from assms x have r: "read_planilha amb caminho =
      (if df_empty df then Inl (ValueError msg_vazia) else Inr df)"
    by (auto simp: read_planilha_def Let_def)
  then show ?thesis
    by (auto simp: df_empty_def importar_leitura_falha)
qed

theorem read_planilha_vazia_witness:
  "lower (suffix caminho_csv) = lit ''.csv'' \<and>
   read_planilha (ambiente_csv \<lparr>columns = [PStr (lit ''Nome'')], linhas = []\<rparr>) caminho_csv =
     Inl (ValueError msg_vazia) \<and>
   banco_final (importar_planilha (ambiente_csv \<lparr>columns = [PStr (lit ''Nome'')], linhas = []\<rparr>)
     caminho_csv (Some tabela_antiga)) = Some tabela_antiga \<and>
   read_planilha (ambiente_csv planilha_exemplo) caminho_csv = Inr planilha_exemplo"
proof -
  have l: "lower (suffix caminho_csv) = lit ''.csv''"
    by (simp add: caminho_csv_def lower_def lit_def)
  have c: "read_csv (ambiente_csv d) caminho_csv = Inr d" for d
    by (simp add: ambiente_csv_def)
  have e: "linhas planilha_exemplo \<noteq> [] \<and> columns planilha_exemplo \<noteq> []"
    by (simp add: planilha_exemplo_def)
  from read_planilha_vazia [of caminho_csv "ambiente_csv \<lparr>columns = [PStr (lit ''Nome'')], linhas = []\<rparr>"
      "\<lparr>columns = [PStr (lit ''Nome'')], linhas = []\<rparr>" "Some tabela_antiga"]
    read_planilha_vazia [of caminho_csv "ambiente_csv planilha_exemplo" planilha_exemplo "Some tabela_antiga"]
    l c e
  show ?thesis by simp
qed

text \<open>
  C9, as the claim states it: the connection would be closed when \<open>importar_planilha\<close>
  returns. A run that commits and a run that fails in CREATE TABLE both leave the
  function with the connection open: the function never calls \<open>close\<close>, and leaving
  the \<open>with\<close> block of a sqlite3 connection ends the transaction only.
\<close>

theorem importar_planilha_conexao_aberta_counterexample:
  "erro (importar_planilha (ambiente_csv planilha_exemplo) caminho_csv None) = None \<and>
   map_option aberta (conexao_final (importar_planilha (ambiente_csv planilha_exemplo) caminho_csv None)) =
     Some True \<and>
   erro (importar_planilha (ambiente_csv planilha_Aa) caminho_csv None) \<noteq> None \<and>
   map_option aberta (conexao_final (importar_planilha (ambiente_csv planilha_Aa) caminho_csv None)) =
     Some True"
  by (simp add: importar_exemplo importar_Aa)

text \<open>
  C9, amended: a run that fails in the reader or in the normalizer opens no connection.
  On every other exit path, with or without an exception, the \<open>with\<close> block is left
  with the transaction ended (committed when the body finished, rolled back when it
  raised) and nothing pending; the connection itself is left open by
  \<open>importar_planilha\<close>.
\<close>

theorem importar_planilha_conexao:
  "(read_planilha amb p = Inl e \<longrightarrow> conexao_final (importar_planilha amb p b) = None) \<and>
   (read_planilha amb p = Inr df \<and> preparar_nomes_colunas (columns df) = Inl e \<longrightarrow>
      conexao_final (importar_planilha amb p b) = None) \<and>
   (read_planilha amb p = Inr df \<and> preparar_nomes_colunas (columns df) = Inr nomes \<longrightarrow>
      (\<exists>c. conexao_final (importar_planilha amb p b) = Some c \<and> aberta c \<and>
          \<not> em_transacao c \<and> atual c = gravado c \<and>
          gravado c = banco_final (importar_planilha amb p b)))"
  using importar_leitura_falha [of amb p e b] importar_normalizador_falha [of amb p df e b]
    importar_casos [of amb p df nomes b]
  by simp

theorem importar_planilha_conexao_witness:
  "read_planilha (ambiente_csv planilha_Aa) caminho_csv = Inr planilha_Aa \<and>
   preparar_nomes_colunas (columns planilha_Aa) = Inr [lit ''A'', lit ''a''] \<and>
   erro (importar_planilha (ambiente_csv planilha_Aa) caminho_csv None) \<noteq> None \<and>
   (\<exists>c. conexao_final (importar_planilha (ambiente_csv planilha_Aa) caminho_csv None) = Some c \<and>
       aberta c \<and> \<not> em_transacao c \<and> atual c = gravado c)"
proof -
  from importar_planilha_conexao
    [of "ambiente_csv planilha_Aa" caminho_csv "ValueError []" None planilha_Aa "[lit ''A'', lit ''a'']"]
    read_Aa preparar_Aa
  have "\<exists>c. conexao_final (importar_planilha (ambiente_csv planilha_Aa) caminho_csv None) = Some c \<and>
       aberta c \<and> \<not> em_transacao c \<and> atual c = gravado c"
    by blast
  with read_Aa preparar_Aa show ?thesis by (simp add: importar_Aa)
qed

end
